theory Spec2Isabelle
  imports Complex_Main "HOL-Library.AList"
begin

section \<open>Python values and errors\<close>

text \<open>
  The client works on what \<^verbatim>\<open>json.loads\<close> returns and on the arguments a caller
  passes: untyped Python values. A dictionary is an association list in insertion
  order; its keys are strings (JSON objects and keyword arguments have no other keys).
  A float is the rational it denotes, or one of the non-finite values that
  \<^verbatim>\<open>json.loads\<close> also produces. A NaN carries the identity of its float
  object: it equals nothing under \<^verbatim>\<open>==\<close>, itself included, so that a dictionary
  finds it again only as the same object. A string is the list of its code points, each
  below 256: text outside Latin-1 is outside the model.
\<close>

datatype pyval =
    PNone
  | PBool bool
  | PInt int
  | PFloat rat
  | PInf
  | PNegInf
  | PNaN nat
  | PStr string
  | PList "pyval list"
  | PTuple "pyval list"
  | PDict "(string \<times> pyval) list"

text \<open>
  Exceptions are values. The messages of the errors the source raises are the source's;
  those of the interpreter and the standard library follow CPython 3.11, shortened
  where the interpreter quotes the offending value.
\<close>

datatype py_error =
    TypeError string
  | ValueError string
  | KeyError string
  | AttributeError string
  | OverflowError string
  | RuntimeError string
  | OtherError string

definition bind :: "py_error + 'a \<Rightarrow> ('a \<Rightarrow> py_error + 'b) \<Rightarrow> py_error + 'b" where
  "bind m f = (case m of Inl e \<Rightarrow> Inl e | Inr v \<Rightarrow> f v)"

definition quoted :: "string \<Rightarrow> string" where
  "quoted s = [CHR 0x27] @ s @ [CHR 0x27]"

fun type_name :: "pyval \<Rightarrow> string" where
  "type_name PNone = ''NoneType''"
| "type_name (PBool _) = ''bool''"
| "type_name (PInt _) = ''int''"
| "type_name (PFloat _) = ''float''"
| "type_name PInf = ''float''"
| "type_name PNegInf = ''float''"
| "type_name (PNaN _) = ''float''"
| "type_name (PStr _) = ''str''"
| "type_name (PList _) = ''list''"
| "type_name (PTuple _) = ''tuple''"
| "type_name (PDict _) = ''dict''"

text \<open>\<^verbatim>\<open>x[k]\<close> with a string key \<open>k\<close>.\<close>

fun getitem :: "pyval \<Rightarrow> string \<Rightarrow> py_error + pyval" where
  "getitem (PDict kvs) k =
     (case map_of kvs k of None \<Rightarrow> Inl (KeyError k) | Some v \<Rightarrow> Inr v)"
| "getitem (PList _) k = Inl (TypeError ''list indices must be integers or slices, not str'')"
| "getitem (PTuple _) k = Inl (TypeError ''tuple indices must be integers or slices, not str'')"
| "getitem (PStr _) k = Inl (TypeError (''string indices must be integers, not '' @ quoted ''str''))"
| "getitem v k = Inl (TypeError (quoted (type_name v) @ '' object is not subscriptable''))"

text \<open>\<^verbatim>\<open>x.lower()\<close>: only a string has the method. Below 256 the code points
  with a lowercase form of their own are the letters A to Z and the capitals from
  U+00C0 to U+00DE, the multiplication sign U+00D7 apart.\<close>

definition upper_chars :: string where
  "upper_chars =
     ''ABCDEFGHIJKLMNOPQRSTUVWXYZ'' @
     [CHR 0xC0, CHR 0xC1, CHR 0xC2, CHR 0xC3, CHR 0xC4, CHR 0xC5, CHR 0xC6, CHR 0xC7,
      CHR 0xC8, CHR 0xC9, CHR 0xCA, CHR 0xCB, CHR 0xCC, CHR 0xCD, CHR 0xCE, CHR 0xCF,
      CHR 0xD0, CHR 0xD1, CHR 0xD2, CHR 0xD3, CHR 0xD4, CHR 0xD5, CHR 0xD6,
      CHR 0xD8, CHR 0xD9, CHR 0xDA, CHR 0xDB, CHR 0xDC, CHR 0xDD, CHR 0xDE]"

definition lower_chars :: string where
  "lower_chars =
     ''abcdefghijklmnopqrstuvwxyz'' @
     [CHR 0xE0, CHR 0xE1, CHR 0xE2, CHR 0xE3, CHR 0xE4, CHR 0xE5, CHR 0xE6, CHR 0xE7,
      CHR 0xE8, CHR 0xE9, CHR 0xEA, CHR 0xEB, CHR 0xEC, CHR 0xED, CHR 0xEE, CHR 0xEF,
      CHR 0xF0, CHR 0xF1, CHR 0xF2, CHR 0xF3, CHR 0xF4, CHR 0xF5, CHR 0xF6,
      CHR 0xF8, CHR 0xF9, CHR 0xFA, CHR 0xFB, CHR 0xFC, CHR 0xFD, CHR 0xFE]"

definition lower_char :: "char \<Rightarrow> char" where
  "lower_char c = (case map_of (zip upper_chars lower_chars) c of Some d \<Rightarrow> d | None \<Rightarrow> c)"

fun lower :: "pyval \<Rightarrow> py_error + string" where
  "lower (PStr s) = Inr (map lower_char s)"
| "lower v = Inl (AttributeError (quoted (type_name v) @ '' object has no attribute '' @ quoted ''lower''))"

text \<open>\<^verbatim>\<open>for x in v\<close>: the elements of a list or tuple, the keys of a dictionary, the
  characters of a string.\<close>

fun iter :: "pyval \<Rightarrow> py_error + pyval list" where
  "iter (PList xs) = Inr xs"
| "iter (PTuple xs) = Inr xs"
| "iter (PDict kvs) = Inr (map (\<lambda>kv. PStr (fst kv)) kvs)"
| "iter (PStr s) = Inr (map (\<lambda>c. PStr [c]) s)"
| "iter v = Inl (TypeError (quoted (type_name v) @ '' object is not iterable''))"

subsection \<open>The built-in \<^verbatim>\<open>int\<close>\<close>

definition trunc :: "rat \<Rightarrow> int" where
  "trunc q = (if q < 0 then - \<lfloor>- q\<rfloor> else \<lfloor>q\<rfloor>)"

definition is_space :: "char \<Rightarrow> bool" where
  "is_space c =
     (c \<in> set [CHR '' '', CHR 0x09, CHR 0x0A, CHR 0x0B, CHR 0x0C, CHR 0x0D, CHR 0x85, CHR 0xA0])"

definition is_digit :: "char \<Rightarrow> bool" where
  "is_digit c = (c \<in> set ''0123456789'')"

definition strip :: "string \<Rightarrow> string" where
  "strip s = rev (dropWhile is_space (rev (dropWhile is_space s)))"

text \<open>Digits with single underscores between them, most significant first. The
  interpreter's limit on the number of digits of a literal is not modelled.\<close>

fun digits_value :: "int \<Rightarrow> string \<Rightarrow> int option" where
  "digits_value acc [] = Some acc"
| "digits_value acc [c] =
     (if is_digit c then Some (10 * acc + (int (of_char c) - 48)) else None)"
| "digits_value acc (c # d # cs) =
     (if is_digit c then
        (if d = CHR ''_'' then
           (case cs of [] \<Rightarrow> None
            | e # _ \<Rightarrow> if is_digit e then digits_value (10 * acc + (int (of_char c) - 48)) cs
                       else None)
         else digits_value (10 * acc + (int (of_char c) - 48)) (d # cs))
      else None)"

definition int_of_str :: "string \<Rightarrow> py_error + int" where
  "int_of_str s =
     (let t = strip s;
          neg = (t \<noteq> [] \<and> hd t = CHR ''-'');
          body = (if t \<noteq> [] \<and> (hd t = CHR ''-'' \<or> hd t = CHR ''+'') then tl t else t)
      in if body = [] then Inl (ValueError ''invalid literal for int() with base 10'')
         else (case digits_value 0 body of
                 None \<Rightarrow> Inl (ValueError ''invalid literal for int() with base 10'')
               | Some n \<Rightarrow> Inr (if neg then - n else n)))"

fun py_int :: "pyval \<Rightarrow> py_error + int" where
  "py_int (PInt i) = Inr i"
| "py_int (PBool b) = Inr (if b then 1 else 0)"
| "py_int (PFloat q) = Inr (trunc q)"
| "py_int PInf = Inl (OverflowError ''cannot convert float infinity to integer'')"
| "py_int PNegInf = Inl (OverflowError ''cannot convert float infinity to integer'')"
| "py_int (PNaN _) = Inl (ValueError ''cannot convert float NaN to integer'')"
| "py_int (PStr s) = int_of_str s"
| "py_int v = Inl (TypeError (''int() argument must be a string, a bytes-like object or a real number, not '' @ quoted (type_name v)))"

section \<open>The response normalizer\<close>

text \<open>
  One step of the dictionary comprehension of \<^verbatim>\<open>parse_json\<close>: the key
  \<^verbatim>\<open>x["nutrient"]["name"].lower()\<close> is evaluated before the value
  \<^verbatim>\<open>x["amount"]\<close>.
\<close>

definition nutrient_item :: "pyval \<Rightarrow> py_error + (string \<times> pyval)" where
  "nutrient_item x =
     bind (getitem x ''nutrient'') (\<lambda>n.
     bind (getitem n ''name'') (\<lambda>nm.
     bind (lower nm) (\<lambda>k.
     bind (getitem x ''amount'') (\<lambda>a. Inr (k, a)))))"

text \<open>The comprehension: a later entry with the same key replaces the value of an earlier
  one, in the earlier one's position.\<close>

fun nutrition_dict :: "(string \<times> pyval) list \<Rightarrow> pyval list \<Rightarrow> py_error + (string \<times> pyval) list" where
  "nutrition_dict acc [] = Inr acc"
| "nutrition_dict acc (x # xs) =
     (case nutrient_item x of
        Inl e \<Rightarrow> Inl e
      | Inr (k, a) \<Rightarrow> nutrition_dict (AList.update k a acc) xs)"

definition parse_json :: "pyval \<Rightarrow> py_error + pyval" where
  "parse_json data =
     bind (getitem data ''fdcId'') (\<lambda>food_id.
     bind (getitem data ''description'') (\<lambda>description.
     bind (lower description) (\<lambda>name.
     bind (getitem data ''foodNutrients'') (\<lambda>fn.
     bind (iter fn) (\<lambda>entries.
     bind (nutrition_dict [] entries) (\<lambda>nutrition.
     bind (getitem (PDict nutrition) ''energy'') (\<lambda>energy.
     bind (py_int energy) (\<lambda>calories.
     bind (getitem (PDict nutrition) ''total lipid (fat)'') (\<lambda>fat.
     bind (getitem (PDict nutrition) ''carbohydrate, by difference'') (\<lambda>carbs.
     bind (getitem (PDict nutrition) ''protein'') (\<lambda>protein.
     bind (getitem data ''servingSize'') (\<lambda>serving_value.
     bind (getitem data ''servingSizeUnit'') (\<lambda>unit_raw.
     bind (lower unit_raw) (\<lambda>unit.
     bind (getitem data ''labelNutrients'') (\<lambda>label.
     bind (bind (getitem label ''calories'') (\<lambda>d. getitem d ''value'')) (\<lambda>l_calories.
     bind (getitem data ''labelNutrients'') (\<lambda>label.
     bind (bind (getitem label ''fat'') (\<lambda>d. getitem d ''value'')) (\<lambda>l_fat.
     bind (getitem data ''labelNutrients'') (\<lambda>label.
     bind (bind (getitem label ''carbohydrates'') (\<lambda>d. getitem d ''value'')) (\<lambda>l_carbs.
     bind (getitem data ''labelNutrients'') (\<lambda>label.
     bind (bind (getitem label ''protein'') (\<lambda>d. getitem d ''value'')) (\<lambda>l_protein.
       Inr (PDict
         [(''food_id'', food_id),
          (''name'', PStr name),
          (''calories'', PInt calories),
          (''macronutrients'',
             PDict [(''fat'', fat), (''carbs'', carbs), (''protein'', protein)]),
          (''serving'', PDict [(''value'', serving_value), (''unit'', PStr unit)]),
          (''nutrition_per_serving'',
             PDict [(''calories'', l_calories), (''fat'', l_fat),
                    (''carbs'', l_carbs), (''protein'', l_protein)])])
     ))))))))))))))))))))))"

text \<open>
  The dataclass has no run-time check of its fields' types: each field holds whatever
  value it is given. \<^verbatim>\<open>FoodEntry(**d)\<close> needs exactly the six field names as
  keywords.
\<close>

record FoodEntry =
  food_id :: pyval
  name :: pyval
  calories :: pyval
  macronutrients :: pyval
  serving :: pyval
  nutrition_per_serving :: pyval

definition FoodEntry_fields :: "string list" where
  "FoodEntry_fields =
     [''food_id'', ''name'', ''calories'', ''macronutrients'', ''serving'',
      ''nutrition_per_serving'']"

definition FoodEntry_init :: "(string \<times> pyval) list \<Rightarrow> py_error + FoodEntry" where
  "FoodEntry_init kw =
     (if \<not> list_all (\<lambda>kv. fst kv \<in> set FoodEntry_fields) kw then
        Inl (TypeError ''FoodEntry.__init__() got an unexpected keyword argument'')
      else
        (case (map_of kw ''food_id'', map_of kw ''name'', map_of kw ''calories'',
               map_of kw ''macronutrients'', map_of kw ''serving'',
               map_of kw ''nutrition_per_serving'') of
           (Some a, Some b, Some c, Some d, Some e, Some f) \<Rightarrow>
             Inr \<lparr>food_id = a, name = b, calories = c, macronutrients = d, serving = e,
                  nutrition_per_serving = f\<rparr>
         | _ \<Rightarrow> Inl (TypeError ''FoodEntry.__init__() missing required positional arguments'')))"

definition from_json :: "pyval \<Rightarrow> py_error + FoodEntry" where
  "from_json json =
     bind (parse_json json) (\<lambda>d.
       (case d of PDict kw \<Rightarrow> FoodEntry_init kw
        | _ \<Rightarrow> Inl (TypeError ''argument after ** must be a mapping'')))"

text \<open>\<^verbatim>\<open>FoodEntry.__str__\<close>: the body is \<^verbatim>\<open>pass\<close>, so the method returns
  \<^verbatim>\<open>None\<close>.\<close>

definition FoodEntry_str :: "FoodEntry \<Rightarrow> pyval" where
  "FoodEntry_str self = PNone"

text \<open>The built-in \<^verbatim>\<open>str(x)\<close> on an object with a \<^verbatim>\<open>__str__\<close> method, which
  \<^verbatim>\<open>print\<close> and string formatting go through: the method's result has to be a
  string.\<close>

definition py_str :: "('a \<Rightarrow> pyval) \<Rightarrow> 'a \<Rightarrow> py_error + string" where
  "py_str str_method x =
     (case str_method x of
        PStr s \<Rightarrow> Inr s
      | v \<Rightarrow> Inl (TypeError (''__str__ returned non-string (type '' @ type_name v @ '')'')))"

section \<open>The status validator\<close>

record response =
  status_code :: int
  resp_text :: string

definition check_response :: "response \<Rightarrow> py_error + bool" where
  "check_response response =
     (if status_code response = 200 then Inr True
      else if status_code response = 400 then
        Inl (ValueError ''Apparently this request used an invalid parameter.'')
      else if status_code response = 404 then
        Inl (ValueError ''The status code indicates that the food item was not found.'')
      else Inl (RuntimeError ''The status code indicates an unknown error.''))"

section \<open>The API client\<close>

subsection \<open>What the client delegates\<close>

text \<open>
  The transport (\<^verbatim>\<open>requests.get\<close>), the JSON decoder (\<^verbatim>\<open>json.loads\<close>),
  \<^verbatim>\<open>urljoin\<close> and the built-in \<^verbatim>\<open>str\<close> are not code of this repository: the
  model takes them as parameters. The answer of the transport may depend on the requests
  issued before, so that the same request can be answered differently at different times.
\<close>

type_synonym request = "string \<times> (string \<times> pyval) list"

record library =
  requests_get :: "request list \<Rightarrow> request \<Rightarrow> py_error + response"
  json_loads :: "string \<Rightarrow> py_error + pyval"
  urljoin :: "string \<Rightarrow> string \<Rightarrow> string"
  str_of :: "pyval \<Rightarrow> string"

text \<open>A client object: its identity and the key it was constructed with.\<close>

record FCAPI =
  oid :: nat
  api_key :: pyval

definition base_url :: string where
  "base_url = ''https://api.nal.usda.gov/fdc/v1/''"

subsection \<open>Memoization: \<^verbatim>\<open>functools.cache\<close>\<close>

text \<open>
  The cache of a decorated method is a dictionary, keyed by the flattened call:
  \<^verbatim>\<open>self\<close>, the positional arguments, and, when there are keyword arguments, a
  marker followed by each keyword and its value in the order they were passed. Building
  the key hashes every component; a list or a dictionary is unhashable. Two keys are the
  same when their components compare equal with \<^verbatim>\<open>==\<close>: \<^verbatim>\<open>1\<close>, \<^verbatim>\<open>1.0\<close>
  and \<^verbatim>\<open>True\<close> are one key, and a NaN is found only by its identity. A hashed
  value is the canonical form of a value under this comparison.
\<close>

datatype hval =
    HNone
  | HNum rat
  | HInf
  | HNegInf
  | HNaN nat
  | HStr string
  | HTuple "hval list"
  | HSelf nat
  | HMark

fun hash_val :: "pyval \<Rightarrow> py_error + hval"
  and hash_vals :: "pyval list \<Rightarrow> py_error + hval list" where
  "hash_val PNone = Inr HNone"
| "hash_val (PBool b) = Inr (HNum (if b then 1 else 0))"
| "hash_val (PInt i) = Inr (HNum (of_int i))"
| "hash_val (PFloat q) = Inr (HNum q)"
| "hash_val PInf = Inr HInf"
| "hash_val PNegInf = Inr HNegInf"
| "hash_val (PNaN i) = Inr (HNaN i)"
| "hash_val (PStr s) = Inr (HStr s)"
| "hash_val (PList xs) = Inl (TypeError (''unhashable type: '' @ quoted ''list''))"
| "hash_val (PDict kvs) = Inl (TypeError (''unhashable type: '' @ quoted ''dict''))"
| "hash_val (PTuple xs) =
     (case hash_vals xs of Inl e \<Rightarrow> Inl e | Inr hs \<Rightarrow> Inr (HTuple hs))"
| "hash_vals [] = Inr []"
| "hash_vals (x # xs) =
     (case hash_val x of
        Inl e \<Rightarrow> Inl e
      | Inr h \<Rightarrow> (case hash_vals xs of Inl e \<Rightarrow> Inl e | Inr hs \<Rightarrow> Inr (h # hs)))"

definition make_key :: "FCAPI \<Rightarrow> pyval list \<Rightarrow> (string \<times> pyval) list \<Rightarrow> py_error + hval list" where
  "make_key self args kwds =
     bind (hash_vals args) (\<lambda>ha.
     bind (hash_vals (map snd kwds)) (\<lambda>hk.
       Inr (HSelf (oid self) # ha @
            (if kwds = [] then []
             else HMark # concat (map (\<lambda>(k, h). [HStr k, h]) (zip (map fst kwds) hk))))))"

text \<open>
  The state of the program: the requests handed to the transport so far, oldest first,
  and the cache of each decorated method.
\<close>

record state =
  sent :: "request list"
  food_by_id_cache :: "(hval list \<times> FoodEntry) list"
  foods_by_id_cache :: "(hval list \<times> FoodEntry list) list"
  search_food_by_query_cache :: "(hval list \<times> FoodEntry list) list"

text \<open>
  The wrapper the decorator puts around a method: build the key (which may raise), return
  the stored result on a hit, otherwise run the method and store what it returns. A call
  that raises stores nothing.
\<close>

definition cache_wrapper ::
  "(state \<Rightarrow> (hval list \<times> 'r) list) \<Rightarrow> ((hval list \<times> 'r) list \<Rightarrow> state \<Rightarrow> state) \<Rightarrow>
   (FCAPI \<Rightarrow> pyval list \<Rightarrow> (string \<times> pyval) list \<Rightarrow> state \<Rightarrow> (py_error + 'r) \<times> state) \<Rightarrow>
   FCAPI \<Rightarrow> pyval list \<Rightarrow> (string \<times> pyval) list \<Rightarrow> state \<Rightarrow> (py_error + 'r) \<times> state" where
  "cache_wrapper cache_get cache_set user_function self args kwds s =
     (case make_key self args kwds of
        Inl e \<Rightarrow> (Inl e, s)
      | Inr key \<Rightarrow>
          (case map_of (cache_get s) key of
             Some result \<Rightarrow> (Inr result, s)
           | None \<Rightarrow>
               (case user_function self args kwds s of
                  (Inl e, s') \<Rightarrow> (Inl e, s')
                | (Inr result, s') \<Rightarrow> (Inr result, cache_set ((key, result) # cache_get s') s'))))"

subsection \<open>Passing arguments\<close>

text \<open>
  Binding the positional and keyword arguments of a call to the parameters that follow
  \<^verbatim>\<open>self\<close>: for each parameter its value, if it got one, and the keyword arguments
  left for \<^verbatim>\<open>**kwargs\<close>.
\<close>

definition bind_args ::
  "string list \<Rightarrow> pyval list \<Rightarrow> (string \<times> pyval) list \<Rightarrow>
   py_error + (pyval option list \<times> (string \<times> pyval) list)" where
  "bind_args names args kwds =
     (case filter (\<lambda>kv. fst kv = ''self'' \<or> fst kv \<in> set (take (length args) names)) kwds of
        kv # _ \<Rightarrow> Inl (TypeError (''got multiple values for argument '' @ quoted (fst kv)))
      | [] \<Rightarrow>
          if length args > length names then
            Inl (TypeError ''too many positional arguments'')
          else
            Inr (map (map_of (zip names args @ kwds)) names,
                 filter (\<lambda>kv. fst kv \<notin> set names) kwds))"

subsection \<open>The methods\<close>

text \<open>\<^verbatim>\<open>params = {"api_key": self.api_key}; params.update(kwargs)\<close>, and the same
  with further entries before the update.\<close>

definition dict_update :: "(string \<times> pyval) list \<Rightarrow> (string \<times> pyval) list \<Rightarrow> (string \<times> pyval) list" where
  "dict_update d kwargs = fold (\<lambda>kv. AList.update (fst kv) (snd kv)) kwargs d"

text \<open>\<^verbatim>\<open>requests.get(url, params=params)\<close>: the request is recorded, whatever the
  transport answers.\<close>

definition get :: "library \<Rightarrow> request \<Rightarrow> state \<Rightarrow> (py_error + response) \<times> state" where
  "get lib req s = (requests_get lib (sent s) req, s\<lparr>sent := sent s @ [req]\<rparr>)"

fun map_err :: "('a \<Rightarrow> py_error + 'b) \<Rightarrow> 'a list \<Rightarrow> py_error + 'b list" where
  "map_err f [] = Inr []"
| "map_err f (x # xs) =
     (case f x of
        Inl e \<Rightarrow> Inl e
      | Inr y \<Rightarrow> (case map_err f xs of Inl e \<Rightarrow> Inl e | Inr ys \<Rightarrow> Inr (y # ys)))"

fun isinstance_int :: "pyval \<Rightarrow> bool" where
  "isinstance_int (PInt _) = True"
| "isinstance_int (PBool _) = True"
| "isinstance_int _ = False"

definition food_by_id_body ::
  "library \<Rightarrow> FCAPI \<Rightarrow> pyval \<Rightarrow> (string \<times> pyval) list \<Rightarrow> state \<Rightarrow> (py_error + FoodEntry) \<times> state" where
  "food_by_id_body lib self fid kwargs s =
     (if \<not> isinstance_int fid then
        (Inl (TypeError ''food_id must be an integer. for a list use foods_by_id''), s)
      else
        let url = urljoin lib base_url (''food/'' @ str_of lib fid);
            params = dict_update [(''api_key'', api_key self)] kwargs;
            (r, s') = get lib (url, params) s
        in (bind r (\<lambda>response.
            bind (check_response response) (\<lambda>_.
            bind (json_loads lib (resp_text response)) from_json)), s'))"

definition join :: "string \<Rightarrow> string list \<Rightarrow> string" where
  "join sep xs = (case xs of [] \<Rightarrow> [] | y # ys \<Rightarrow> y @ concat (map (\<lambda>z. sep @ z) ys))"

definition foods_of :: "library \<Rightarrow> response \<Rightarrow> py_error + FoodEntry list" where
  "foods_of lib response =
     bind (check_response response) (\<lambda>_.
     bind (json_loads lib (resp_text response)) (\<lambda>j.
     bind (getitem j ''foods'') (\<lambda>foods.
     bind (iter foods) (map_err from_json))))"

definition foods_by_id_body ::
  "library \<Rightarrow> FCAPI \<Rightarrow> pyval \<Rightarrow> (string \<times> pyval) list \<Rightarrow> state \<Rightarrow> (py_error + FoodEntry list) \<times> state" where
  "foods_by_id_body lib self food_ids kwargs s =
     (case food_ids of
        PList ids \<Rightarrow>
          if length ids > 20 then
            (Inl (ValueError ''food_ids must be a list of length <= 20''), s)
          else
            let url = urljoin lib base_url ''foods'';
                params = dict_update
                  [(''api_key'', api_key self),
                   (''fdcIds'', PStr (join '','' (map (str_of lib) ids)))] kwargs;
                (r, s') = get lib (url, params) s
            in (bind r (foods_of lib), s')
      | _ \<Rightarrow> (Inl (TypeError ''food_ids must be a list. for a single id use food_by_id''), s))"

definition search_food_by_query_body ::
  "library \<Rightarrow> FCAPI \<Rightarrow> pyval \<Rightarrow> pyval \<Rightarrow> (string \<times> pyval) list \<Rightarrow> state \<Rightarrow>
   (py_error + FoodEntry list) \<times> state" where
  "search_food_by_query_body lib self query brand kwargs s =
     (let url = urljoin lib base_url ''foods/search'';
          params = dict_update [(''api_key'', api_key self)] kwargs;
          (r, s') = get lib (url, params) s
      in (bind r (foods_of lib), s'))"

text \<open>
  The methods as a caller reaches them. The undecorated method binds the arguments of
  the call and runs the body; the decorator's wrapper stands in front of it.
\<close>

definition missing_argument :: "string \<Rightarrow> py_error" where
  "missing_argument n = TypeError (''missing 1 required positional argument: '' @ quoted n)"

definition food_by_id_wrapped ::
  "library \<Rightarrow> FCAPI \<Rightarrow> pyval list \<Rightarrow> (string \<times> pyval) list \<Rightarrow> state \<Rightarrow> (py_error + FoodEntry) \<times> state" where
  "food_by_id_wrapped lib self args kwds s =
     (case bind_args [''food_id''] args kwds of
        Inl e \<Rightarrow> (Inl e, s)
      | Inr ([Some fid], kwargs) \<Rightarrow> food_by_id_body lib self fid kwargs s
      | Inr _ \<Rightarrow> (Inl (missing_argument ''food_id''), s))"

definition food_by_id ::
  "library \<Rightarrow> FCAPI \<Rightarrow> pyval list \<Rightarrow> (string \<times> pyval) list \<Rightarrow> state \<Rightarrow> (py_error + FoodEntry) \<times> state" where
  "food_by_id lib =
     cache_wrapper food_by_id_cache (\<lambda>c s. s\<lparr>food_by_id_cache := c\<rparr>) (food_by_id_wrapped lib)"

definition foods_by_id_wrapped ::
  "library \<Rightarrow> FCAPI \<Rightarrow> pyval list \<Rightarrow> (string \<times> pyval) list \<Rightarrow> state \<Rightarrow>
   (py_error + FoodEntry list) \<times> state" where
  "foods_by_id_wrapped lib self args kwds s =
     (case bind_args [''food_ids''] args kwds of
        Inl e \<Rightarrow> (Inl e, s)
      | Inr ([Some food_ids], kwargs) \<Rightarrow> foods_by_id_body lib self food_ids kwargs s
      | Inr _ \<Rightarrow> (Inl (missing_argument ''food_ids''), s))"

definition foods_by_id ::
  "library \<Rightarrow> FCAPI \<Rightarrow> pyval list \<Rightarrow> (string \<times> pyval) list \<Rightarrow> state \<Rightarrow>
   (py_error + FoodEntry list) \<times> state" where
  "foods_by_id lib =
     cache_wrapper foods_by_id_cache (\<lambda>c s. s\<lparr>foods_by_id_cache := c\<rparr>)
       (foods_by_id_wrapped lib)"

definition search_food_by_query_wrapped ::
  "library \<Rightarrow> FCAPI \<Rightarrow> pyval list \<Rightarrow> (string \<times> pyval) list \<Rightarrow> state \<Rightarrow>
   (py_error + FoodEntry list) \<times> state" where
  "search_food_by_query_wrapped lib self args kwds s =
     (case bind_args [''query'', ''brand''] args kwds of
        Inl e \<Rightarrow> (Inl e, s)
      | Inr ([Some query, brand], kwargs) \<Rightarrow>
          search_food_by_query_body lib self query
            (case brand of None \<Rightarrow> PNone | Some b \<Rightarrow> b) kwargs s
      | Inr _ \<Rightarrow> (Inl (missing_argument ''query''), s))"

definition search_food_by_query ::
  "library \<Rightarrow> FCAPI \<Rightarrow> pyval list \<Rightarrow> (string \<times> pyval) list \<Rightarrow> state \<Rightarrow>
   (py_error + FoodEntry list) \<times> state" where
  "search_food_by_query lib =
     cache_wrapper search_food_by_query_cache (\<lambda>c s. s\<lparr>search_food_by_query_cache := c\<rparr>)
       (search_food_by_query_wrapped lib)"

section \<open>Calls in sequence\<close>

text \<open>
  A program using the client is a sequence of calls of the three memoized methods, each
  run in the state the one before left.
\<close>

datatype call =
    Food_by_id FCAPI "pyval list" "(string \<times> pyval) list"
  | Foods_by_id FCAPI "pyval list" "(string \<times> pyval) list"
  | Search_food_by_query FCAPI "pyval list" "(string \<times> pyval) list"

datatype outcome = Entry FoodEntry | Entries "FoodEntry list"

definition returning :: "('r \<Rightarrow> outcome) \<Rightarrow> (py_error + 'r) \<times> state \<Rightarrow> (py_error + outcome) \<times> state" where
  "returning wrap rs = (map_sum id wrap (fst rs), snd rs)"

fun perform :: "library \<Rightarrow> call \<Rightarrow> state \<Rightarrow> (py_error + outcome) \<times> state" where
  "perform lib (Food_by_id self args kwds) s = returning Entry (food_by_id lib self args kwds s)"
| "perform lib (Foods_by_id self args kwds) s = returning Entries (foods_by_id lib self args kwds s)"
| "perform lib (Search_food_by_query self args kwds) s =
     returning Entries (search_food_by_query lib self args kwds s)"

fun perform_all :: "library \<Rightarrow> call list \<Rightarrow> state \<Rightarrow> state" where
  "perform_all lib [] s = s"
| "perform_all lib (c # cs) s = perform_all lib cs (snd (perform lib c s))"

text \<open>The call \<open>c\<close> has the result \<open>r\<close> stored under its key in the cache of its
  method.\<close>

fun cached :: "call \<Rightarrow> state \<Rightarrow> outcome \<Rightarrow> bool" where
  "cached (Food_by_id self args kwds) s r =
     (case make_key self args kwds of
        Inl _ \<Rightarrow> False
      | Inr key \<Rightarrow> map_option Entry (map_of (food_by_id_cache s) key) = Some r)"
| "cached (Foods_by_id self args kwds) s r =
     (case make_key self args kwds of
        Inl _ \<Rightarrow> False
      | Inr key \<Rightarrow> map_option Entries (map_of (foods_by_id_cache s) key) = Some r)"
| "cached (Search_food_by_query self args kwds) s r =
     (case make_key self args kwds of
        Inl _ \<Rightarrow> False
      | Inr key \<Rightarrow> map_option Entries (map_of (search_food_by_query_cache s) key) = Some r)"

section \<open>Reading raw records\<close>

text \<open>
  The parts of a raw food record that the properties below speak of. An entry of
  \<^verbatim>\<open>foodNutrients\<close> is well formed when it has a nutrient with a text name, and
  an amount. The amount of a nutrient in a record is that of the last entry whose
  lowercased name is the nutrient's, as the comprehension keeps it.
\<close>

definition entry_name :: "pyval \<Rightarrow> string option" where
  "entry_name x =
     (case x of
        PDict kvs \<Rightarrow>
          (case map_of kvs ''nutrient'' of
             Some (PDict n) \<Rightarrow> (case map_of n ''name'' of Some (PStr nm) \<Rightarrow> Some nm | _ \<Rightarrow> None)
           | _ \<Rightarrow> None)
      | _ \<Rightarrow> None)"

definition entry_amount :: "pyval \<Rightarrow> pyval option" where
  "entry_amount x = (case x of PDict kvs \<Rightarrow> map_of kvs ''amount'' | _ \<Rightarrow> None)"

definition wf_entry :: "pyval \<Rightarrow> bool" where
  "wf_entry x = (entry_name x \<noteq> None \<and> entry_amount x \<noteq> None)"

definition nutrient_amount :: "string \<Rightarrow> pyval list \<Rightarrow> pyval option" where
  "nutrient_amount k entries =
     (case filter (\<lambda>x. map_option (map lower_char) (entry_name x) = Some k) entries of
        [] \<Rightarrow> None
      | e # es \<Rightarrow> entry_amount (last (e # es)))"

fun num_of :: "pyval \<Rightarrow> rat option" where
  "num_of (PInt i) = Some (of_int i)"
| "num_of (PFloat q) = Some q"
| "num_of _ = None"

definition label_value :: "pyval \<Rightarrow> string \<Rightarrow> pyval option" where
  "label_value label k =
     (case label of
        PDict l \<Rightarrow> (case map_of l k of Some (PDict d) \<Rightarrow> map_of d ''value'' | _ \<Rightarrow> None)
      | _ \<Rightarrow> None)"

definition required_nutrients :: "string list" where
  "required_nutrients = [''energy'', ''total lipid (fat)'', ''carbohydrate, by difference'', ''protein'']"

definition missing_nutrients :: "pyval list \<Rightarrow> string list" where
  "missing_nutrients entries = filter (\<lambda>k. nutrient_amount k entries = None) required_nutrients"

text \<open>The keyword arguments of a search that are left for \<^verbatim>\<open>**kwargs\<close>.\<close>

definition extra_options :: "(string \<times> pyval) list \<Rightarrow> (string \<times> pyval) list" where
  "extra_options kwds = filter (\<lambda>kv. fst kv \<notin> set [''query'', ''brand'']) kwds"

section \<open>Example data\<close>

text \<open>
  The record of the specification's example. The JSON literals \<^verbatim>\<open>0.2\<close> and
  \<^verbatim>\<open>0.3\<close> decode to the nearest double-precision values.
\<close>

definition float_0_2 :: rat where "float_0_2 = 3602879701896397 / 18014398509481984"
definition float_0_3 :: rat where "float_0_3 = 5404319552844595 / 18014398509481984"

definition apple_raw :: pyval where
  "apple_raw = PDict
     [(''fdcId'', PInt 123),
      (''description'', PStr ''Apple''),
      (''foodNutrients'', PList
         [PDict [(''nutrient'', PDict [(''name'', PStr ''Energy'')]), (''amount'', PInt 52)],
          PDict [(''nutrient'', PDict [(''name'', PStr ''Total lipid (fat)'')]), (''amount'', PFloat float_0_2)],
          PDict [(''nutrient'', PDict [(''name'', PStr ''Carbohydrate, by difference'')]), (''amount'', PInt 14)],
          PDict [(''nutrient'', PDict [(''name'', PStr ''Protein'')]), (''amount'', PFloat float_0_3)]]),
      (''servingSize'', PInt 100),
      (''servingSizeUnit'', PStr ''G''),
      (''labelNutrients'', PDict
         [(''calories'', PDict [(''value'', PInt 52)]),
          (''fat'', PDict [(''value'', PFloat float_0_2)]),
          (''carbohydrates'', PDict [(''value'', PInt 14)]),
          (''protein'', PDict [(''value'', PFloat float_0_3)])])]"

definition apple_entry :: FoodEntry where
  "apple_entry =
     \<lparr>food_id = PInt 123, name = PStr ''apple'', calories = PInt 52,
      macronutrients = PDict [(''fat'', PFloat float_0_2), (''carbs'', PInt 14), (''protein'', PFloat float_0_3)],
      serving = PDict [(''value'', PInt 100), (''unit'', PStr ''g'')],
      nutrition_per_serving = PDict [(''calories'', PInt 52), (''fat'', PFloat float_0_2), (''carbs'', PInt 14), (''protein'', PFloat float_0_3)]\<rparr>"

definition stub_library :: library where
  "stub_library =
     \<lparr>requests_get = (\<lambda>history req. Inr \<lparr>status_code = 200, resp_text = ''apple''\<rparr>),
      json_loads = (\<lambda>t. Inr apple_raw),
      urljoin = (\<lambda>base url. base @ url),
      str_of = (\<lambda>v. case v of PInt i \<Rightarrow> (if i = 1 then ''1'' else ''2'') | _ \<Rightarrow> '''')\<rparr>"

definition client :: FCAPI where
  "client = \<lparr>oid = 0, api_key = PStr ''DEMO_KEY''\<rparr>"

definition initial_state :: state where
  "initial_state = \<lparr>sent = [], food_by_id_cache = [], foods_by_id_cache = [],
     search_food_by_query_cache = []\<rparr>"

definition state_1 :: state where
  "state_1 = \<lparr>sent = [(''https://api.nal.usda.gov/fdc/v1/food/1'', [(''api_key'', PStr ''DEMO_KEY'')])],
     food_by_id_cache = [([HSelf 0, HNum 1], apple_entry)], foods_by_id_cache = [],
     search_food_by_query_cache = []\<rparr>"

text \<open>A record listing energy twice (the later entry is the one kept), and the same
  record without its protein entry.\<close>

definition banana_entries :: "pyval list" where
  "banana_entries =
     [PDict [(''nutrient'', PDict [(''name'', PStr ''Energy'')]), (''amount'', PInt 371)],
      PDict [(''nutrient'', PDict [(''name'', PStr ''Protein'')]), (''amount'', PFloat (109 / 100))],
      PDict [(''nutrient'', PDict [(''name'', PStr ''ENERGY''), (''unitName'', PStr ''KCAL'')]), (''amount'', PFloat (899 / 10))],
      PDict [(''nutrient'', PDict [(''name'', PStr ''Total lipid (fat)'')]), (''amount'', PFloat (33 / 100))],
      PDict [(''nutrient'', PDict [(''name'', PStr ''Carbohydrate, by difference'')]), (''amount'', PFloat (457 / 20))]]"

definition banana_label :: pyval where
  "banana_label =
     PDict
       [(''calories'', PDict [(''value'', PInt 105)]),
        (''fat'', PDict [(''value'', PFloat (2 / 5))]),
        (''carbohydrates'', PDict [(''value'', PInt 27)]),
        (''protein'', PDict [(''value'', PFloat (13 / 10))])]"

definition banana_raw :: "(string \<times> pyval) list" where
  "banana_raw =
     [(''fdcId'', PInt 173944),
      (''description'', PStr ''Bananas, RAW''),
      (''foodNutrients'', PList banana_entries),
      (''servingSize'', PInt 118),
      (''servingSizeUnit'', PStr ''G''),
      (''labelNutrients'', banana_label)]"

definition banana_without_protein :: "(string \<times> pyval) list" where
  "banana_without_protein =
     [(''fdcId'', PInt 173944),
      (''description'', PStr ''Bananas, RAW''),
      (''foodNutrients'', PList (filter (\<lambda>x. entry_name x \<noteq> Some ''Protein'') banana_entries)),
      (''servingSize'', PInt 118),
      (''servingSizeUnit'', PStr ''G'')]"

text \<open>
  A library for examples with both lookups and searches: every request is answered with
  status 200; the body of a search decodes to a result list holding the apple record,
  any other body to the apple record itself.
\<close>

definition demo_library :: library where
  "demo_library =
     \<lparr>requests_get =
        (\<lambda>history req.
           Inr \<lparr>status_code = 200,
                resp_text = (if fst req = base_url @ ''foods/search'' then ''search'' else ''food'')\<rparr>),
      json_loads =
        (\<lambda>t. Inr (if t = ''search'' then PDict [(''foods'', PList [apple_raw])] else apple_raw)),
      urljoin = (\<lambda>base url. base @ url),
      str_of = (\<lambda>v. case v of PInt i \<Rightarrow> (if i = 1 then ''1'' else ''2'') | _ \<Rightarrow> ''x'')\<rparr>"

text \<open>Calls made between a call and its repetition: the same food with another
  keyword argument, a bulk lookup, a search, and another food.\<close>

definition calls_between :: "call list" where
  "calls_between =
     [Food_by_id client [PInt 1] [(''format'', PStr ''abridged'')],
      Foods_by_id client [PList [PInt 1, PInt 2]] [],
      Search_food_by_query client [PStr ''pear''] [(''pageSize'', PInt 5)],
      Food_by_id client [PInt 2] []]"

text \<open>The state after a first lookup, and after the calls between and a first
  search.\<close>

definition after_food :: state where
  "after_food = snd (food_by_id demo_library client [PInt 1] [(''format'', PStr ''full'')] initial_state)"

definition after_search :: state where
  "after_search =
     snd (search_food_by_query demo_library client [PStr ''apple''] []
            (perform_all demo_library calls_between after_food))"

text \<open>The same two keyword arguments in either order.\<close>

definition format_then_size :: "(string \<times> pyval) list" where
  "format_then_size = [(''format'', PStr ''full''), (''pageSize'', PInt 1)]"

definition size_then_format :: "(string \<times> pyval) list" where
  "size_then_format = [(''pageSize'', PInt 1), (''format'', PStr ''full'')]"

section \<open>The normalizer: properties\<close>

lemma nutrient_item_wf:
  "wf_entry x \<Longrightarrow> \<exists>nm a. entry_name x = Some nm \<and> entry_amount x = Some a \<and>
      nutrient_item x = Inr (map lower_char nm, a)"
  by (auto simp: wf_entry_def entry_name_def entry_amount_def nutrient_item_def bind_def
      split: pyval.splits option.splits)

lemma nutrition_dict_wf:
  "list_all wf_entry entries \<Longrightarrow>
   \<exists>d. nutrition_dict acc entries = Inr d \<and>
       (\<forall>k. map_of d k = (if filter (\<lambda>x. map_option (map lower_char) (entry_name x) = Some k) entries = [] then map_of acc k else nutrient_amount k entries))"
proof (induction entries arbitrary: acc)
  case Nil
  then show ?case by simp
next
  case (Cons x xs)
  from Cons.prems have wx: "wf_entry x" and wxs: "list_all wf_entry xs" by simp_all
  from nutrient_item_wf[OF wx] obtain nm a where
    n: "entry_name x = Some nm" and a: "entry_amount x = Some a"
    and it: "nutrient_item x = Inr (map lower_char nm, a)" by blast
  from Cons.IH[OF wxs, of "AList.update (map lower_char nm) a acc"] obtain d where
    d: "nutrition_dict (AList.update (map lower_char nm) a acc) xs = Inr d"
    and m: "\<forall>k. map_of d k = (if filter (\<lambda>x. map_option (map lower_char) (entry_name x) = Some k) xs = [] then map_of (AList.update (map lower_char nm) a acc) k else nutrient_amount k xs)"
    by blast
  have "nutrition_dict acc (x # xs) = Inr d" using it d by simp
  moreover have "map_of d k = (if filter (\<lambda>x. map_option (map lower_char) (entry_name x) = Some k) (x # xs) = [] then map_of acc k else nutrient_amount k (x # xs))" for k
    using m n a by (auto simp: nutrient_amount_def update_conv' split: list.splits)
  ultimately show ?case by blast
qed


lemma nutrition_dict_lookup:
  assumes "list_all wf_entry entries"
  shows "\<exists>d. nutrition_dict [] entries = Inr d \<and> (\<forall>k. map_of d k = nutrient_amount k entries)"
proof -
  from nutrition_dict_wf[OF assms, of "[]"] obtain d where
    d: "nutrition_dict [] entries = Inr d"
    and m: "\<forall>k. map_of d k = (if filter (\<lambda>x. map_option (map lower_char) (entry_name x) = Some k) entries = [] then map_of [] k else nutrient_amount k entries)"
    by blast
  have "map_of d k = nutrient_amount k entries" for k
    using m by (simp add: nutrient_amount_def)
  with d show ?thesis by blast
qed

lemma trunc_of_int: "trunc (of_int i) = i"
  by (simp add: trunc_def)

lemma py_int_num_of: "num_of v = Some q \<Longrightarrow> py_int v = Inr (trunc q)"
  by (cases v) (auto simp: trunc_of_int)

lemma label_value_getitem:
  "label_value label k = Some v \<Longrightarrow> bind (getitem label k) (\<lambda>d. getitem d ''value'') = Inr v"
  by (auto simp: label_value_def bind_def split: pyval.splits option.splits)

lemma trunc_899_10: "trunc (899 / 10) = 89"
  by (simp add: trunc_def floor_eq_iff)

lemma trunc_toward_zero: "trunc (- (37 / 10)) = - 3"
  by (simp add: trunc_def floor_eq_iff)

lemma apple_normalized: "from_json apple_raw = Inr apple_entry"
  by (simp add: from_json_def parse_json_def apple_raw_def bind_def nutrient_item_def
      lower_char_def upper_chars_def lower_chars_def FoodEntry_init_def FoodEntry_fields_def apple_entry_def)

text \<open>
  C6. A raw record that has every required key, with a text description and unit,
  well-formed nutrient entries naming the four required nutrients, and an energy amount
  that is an integer or a finite float, is normalized without error: \<open>calories\<close>
  is the energy amount truncated toward zero, and the identifier, the three
  macronutrient amounts, the serving size and the four per-serving values are the
  values of the record, unchanged.
\<close>

theorem parse_json_valid_record:
  assumes "map_of kvs ''fdcId'' = Some fid"
    and "map_of kvs ''description'' = Some (PStr desc)"
    and "map_of kvs ''foodNutrients'' = Some (PList entries)"
    and "list_all wf_entry entries"
    and "nutrient_amount ''energy'' entries = Some energy"
    and "num_of energy = Some q"
    and "nutrient_amount ''total lipid (fat)'' entries = Some fat"
    and "nutrient_amount ''carbohydrate, by difference'' entries = Some carbs"
    and "nutrient_amount ''protein'' entries = Some protein"
    and "map_of kvs ''servingSize'' = Some sz"
    and "map_of kvs ''servingSizeUnit'' = Some (PStr u)"
    and "map_of kvs ''labelNutrients'' = Some label"
    and "label_value label ''calories'' = Some l_calories"
    and "label_value label ''fat'' = Some l_fat"
    and "label_value label ''carbohydrates'' = Some l_carbs"
    and "label_value label ''protein'' = Some l_protein"
  shows "parse_json (PDict kvs) =
     Inr (PDict
       [(''food_id'', fid),
        (''name'', PStr (map lower_char desc)),
        (''calories'', PInt (trunc q)),
        (''macronutrients'', PDict [(''fat'', fat), (''carbs'', carbs), (''protein'', protein)]),
        (''serving'', PDict [(''value'', sz), (''unit'', PStr (map lower_char u))]),
        (''nutrition_per_serving'',
           PDict [(''calories'', l_calories), (''fat'', l_fat), (''carbs'', l_carbs),
                  (''protein'', l_protein)])]) \<and>
   from_json (PDict kvs) =
     Inr \<lparr>food_id = fid, name = PStr (map lower_char desc), calories = PInt (trunc q),
          macronutrients = PDict [(''fat'', fat), (''carbs'', carbs), (''protein'', protein)],
          serving = PDict [(''value'', sz), (''unit'', PStr (map lower_char u))],
          nutrition_per_serving =
            PDict [(''calories'', l_calories), (''fat'', l_fat), (''carbs'', l_carbs),
                   (''protein'', l_protein)]\<rparr>"
proof -
  from nutrition_dict_lookup[OF assms(4)] obtain d where
    d: "nutrition_dict [] entries = Inr d" and m: "\<And>k. map_of d k = nutrient_amount k entries"
    by blast
  have p: "parse_json (PDict kvs) =
     Inr (PDict
       [(''food_id'', fid),
        (''name'', PStr (map lower_char desc)),
        (''calories'', PInt (trunc q)),
        (''macronutrients'', PDict [(''fat'', fat), (''carbs'', carbs), (''protein'', protein)]),
        (''serving'', PDict [(''value'', sz), (''unit'', PStr (map lower_char u))]),
        (''nutrition_per_serving'',
           PDict [(''calories'', l_calories), (''fat'', l_fat), (''carbs'', l_carbs),
                  (''protein'', l_protein)])])"
    unfolding parse_json_def
    using assms(1-3,5-12) d m py_int_num_of[OF assms(6)]
      label_value_getitem[OF assms(13)] label_value_getitem[OF assms(14)]
      label_value_getitem[OF assms(15)] label_value_getitem[OF assms(16)]
    by (simp add: bind_def)
  have f: "from_json (PDict kvs) =
     Inr \<lparr>food_id = fid, name = PStr (map lower_char desc), calories = PInt (trunc q),
          macronutrients = PDict [(''fat'', fat), (''carbs'', carbs), (''protein'', protein)],
          serving = PDict [(''value'', sz), (''unit'', PStr (map lower_char u))],
          nutrition_per_serving =
            PDict [(''calories'', l_calories), (''fat'', l_fat), (''carbs'', l_carbs),
                   (''protein'', l_protein)]\<rparr>"
    unfolding from_json_def p by (simp add: bind_def FoodEntry_init_def FoodEntry_fields_def)
  from p f show ?thesis by (rule conjI)
qed

theorem parse_json_valid_record_witness:
  "parse_json (PDict banana_raw) =
     Inr (PDict
       [(''food_id'', PInt 173944),
        (''name'', PStr ''bananas, raw''),
        (''calories'', PInt 89),
        (''macronutrients'',
           PDict [(''fat'', PFloat (33 / 100)), (''carbs'', PFloat (457 / 20)),
                  (''protein'', PFloat (109 / 100))]),
        (''serving'', PDict [(''value'', PInt 118), (''unit'', PStr ''g'')]),
        (''nutrition_per_serving'',
           PDict [(''calories'', PInt 105), (''fat'', PFloat (2 / 5)), (''carbs'', PInt 27),
                  (''protein'', PFloat (13 / 10))])]) \<and>
   from_json (PDict banana_raw) =
     Inr \<lparr>food_id = PInt 173944, name = PStr ''bananas, raw'', calories = PInt 89,
          macronutrients =
            PDict [(''fat'', PFloat (33 / 100)), (''carbs'', PFloat (457 / 20)),
                   (''protein'', PFloat (109 / 100))],
          serving = PDict [(''value'', PInt 118), (''unit'', PStr ''g'')],
          nutrition_per_serving =
            PDict [(''calories'', PInt 105), (''fat'', PFloat (2 / 5)), (''carbs'', PInt 27),
                   (''protein'', PFloat (13 / 10))]\<rparr>"
proof -
  have "map_of banana_raw ''fdcId'' = Some (PInt 173944)"
    and "map_of banana_raw ''description'' = Some (PStr ''Bananas, RAW'')"
    and "map_of banana_raw ''foodNutrients'' = Some (PList banana_entries)"
    and "list_all wf_entry banana_entries"
    and "nutrient_amount ''energy'' banana_entries = Some (PFloat (899 / 10))"
    and "num_of (PFloat (899 / 10)) = Some (899 / 10)"
    and "nutrient_amount ''total lipid (fat)'' banana_entries = Some (PFloat (33 / 100))"
    and "nutrient_amount ''carbohydrate, by difference'' banana_entries = Some (PFloat (457 / 20))"
    and "nutrient_amount ''protein'' banana_entries = Some (PFloat (109 / 100))"
    and "map_of banana_raw ''servingSize'' = Some (PInt 118)"
    and "map_of banana_raw ''servingSizeUnit'' = Some (PStr ''G'')"
    and "map_of banana_raw ''labelNutrients'' = Some banana_label"
    and "label_value banana_label ''calories'' = Some (PInt 105)"
    and "label_value banana_label ''fat'' = Some (PFloat (2 / 5))"
    and "label_value banana_label ''carbohydrates'' = Some (PInt 27)"
    and "label_value banana_label ''protein'' = Some (PFloat (13 / 10))"
    by (simp_all add: banana_raw_def banana_entries_def banana_label_def wf_entry_def
        entry_name_def entry_amount_def nutrient_amount_def label_value_def lower_char_def upper_chars_def lower_chars_def)
  from parse_json_valid_record[OF this] show ?thesis
    by (simp add: lower_char_def upper_chars_def lower_chars_def trunc_899_10)
qed

text \<open>
  C7. In a raw record with identifier, text description and well-formed nutrient
  entries (the energy amount, if there is one, a number), if one of the four required
  nutrient names is absent, normalization fails with the missing-key error of the first
  absent name, in the order the code looks them up; \<^verbatim>\<open>from_json\<close> passes the
  error on.
\<close>

theorem parse_json_missing_nutrient:
  assumes "map_of kvs ''fdcId'' = Some fid"
    and "map_of kvs ''description'' = Some (PStr desc)"
    and "map_of kvs ''foodNutrients'' = Some (PList entries)"
    and "list_all wf_entry entries"
    and "(case nutrient_amount ''energy'' entries of None \<Rightarrow> True | Some a \<Rightarrow> num_of a \<noteq> None)"
    and "missing_nutrients entries = k # ks"
  shows "parse_json (PDict kvs) = Inl (KeyError k) \<and> from_json (PDict kvs) = Inl (KeyError k)"
proof -
  from nutrition_dict_lookup[OF assms(4)] obtain d where
    d: "nutrition_dict [] entries = Inr d" and m: "\<And>k. map_of d k = nutrient_amount k entries"
    by blast
  have p: "parse_json (PDict kvs) = Inl (KeyError k)"
  proof (cases "nutrient_amount ''energy'' entries")
    case None
    with assms(6) have "k = ''energy''"
      by (simp add: missing_nutrients_def required_nutrients_def)
    with None show ?thesis
      unfolding parse_json_def using assms(1-3) d m by (simp add: bind_def)
  next
    case (Some a)
    with assms(5) obtain q where "num_of a = Some q" by auto
    then have i: "py_int a = Inr (trunc q)" by (rule py_int_num_of)
    show ?thesis
    proof (cases "nutrient_amount ''total lipid (fat)'' entries")
      case None
      with assms(6) Some have "k = ''total lipid (fat)''"
        by (simp add: missing_nutrients_def required_nutrients_def)
      with None Some i show ?thesis
        unfolding parse_json_def using assms(1-3) d m by (simp add: bind_def)
    next
      case fat: (Some b)
      show ?thesis
      proof (cases "nutrient_amount ''carbohydrate, by difference'' entries")
        case None
        with assms(6) Some fat have "k = ''carbohydrate, by difference''"
          by (simp add: missing_nutrients_def required_nutrients_def)
        with None Some fat i show ?thesis
          unfolding parse_json_def using assms(1-3) d m by (simp add: bind_def)
      next
        case carbs: (Some c)
        show ?thesis
        proof (cases "nutrient_amount ''protein'' entries")
          case None
          with assms(6) Some fat carbs have "k = ''protein''"
            by (simp add: missing_nutrients_def required_nutrients_def)
          with None Some fat carbs i show ?thesis
            unfolding parse_json_def using assms(1-3) d m by (simp add: bind_def)
        next
          case protein: (Some p)
          with assms(6) Some fat carbs have False
            by (simp add: missing_nutrients_def required_nutrients_def)
          then show ?thesis ..
        qed
      qed
    qed
  qed
  show ?thesis
    unfolding from_json_def p by (simp add: bind_def p)
qed


theorem parse_json_missing_nutrient_witness:
  "parse_json (PDict banana_without_protein) = Inl (KeyError ''protein'') \<and>
   from_json (PDict banana_without_protein) = Inl (KeyError ''protein'')"
  by (rule parse_json_missing_nutrient[where
        entries = "filter (\<lambda>x. entry_name x \<noteq> Some ''Protein'') banana_entries" and ks = "[]"])
    (simp_all add: banana_without_protein_def banana_entries_def wf_entry_def entry_name_def
      entry_amount_def nutrient_amount_def lower_char_def upper_chars_def lower_chars_def missing_nutrients_def
      required_nutrients_def)

text \<open>
  C8. The example record of the specification is normalized to the entry the
  specification gives.
\<close>

theorem from_json_apple_example:
  "apple_raw =
     PDict
       [(''fdcId'', PInt 123),
        (''description'', PStr ''Apple''),
        (''foodNutrients'', PList
           [PDict [(''nutrient'', PDict [(''name'', PStr ''Energy'')]), (''amount'', PInt 52)],
            PDict [(''nutrient'', PDict [(''name'', PStr ''Total lipid (fat)'')]),
                   (''amount'', PFloat float_0_2)],
            PDict [(''nutrient'', PDict [(''name'', PStr ''Carbohydrate, by difference'')]),
                   (''amount'', PInt 14)],
            PDict [(''nutrient'', PDict [(''name'', PStr ''Protein'')]),
                   (''amount'', PFloat float_0_3)]]),
        (''servingSize'', PInt 100),
        (''servingSizeUnit'', PStr ''G''),
        (''labelNutrients'', PDict
           [(''calories'', PDict [(''value'', PInt 52)]),
            (''fat'', PDict [(''value'', PFloat float_0_2)]),
            (''carbohydrates'', PDict [(''value'', PInt 14)]),
            (''protein'', PDict [(''value'', PFloat float_0_3)])])] \<and>
   parse_json apple_raw =
     Inr (PDict
       [(''food_id'', PInt 123),
        (''name'', PStr ''apple''),
        (''calories'', PInt 52),
        (''macronutrients'',
           PDict [(''fat'', PFloat float_0_2), (''carbs'', PInt 14),
                  (''protein'', PFloat float_0_3)]),
        (''serving'', PDict [(''value'', PInt 100), (''unit'', PStr ''g'')]),
        (''nutrition_per_serving'',
           PDict [(''calories'', PInt 52), (''fat'', PFloat float_0_2), (''carbs'', PInt 14),
                  (''protein'', PFloat float_0_3)])]) \<and>
   from_json apple_raw =
     Inr \<lparr>food_id = PInt 123, name = PStr ''apple'', calories = PInt 52,
          macronutrients =
            PDict [(''fat'', PFloat float_0_2), (''carbs'', PInt 14),
                   (''protein'', PFloat float_0_3)],
          serving = PDict [(''value'', PInt 100), (''unit'', PStr ''g'')],
          nutrition_per_serving =
            PDict [(''calories'', PInt 52), (''fat'', PFloat float_0_2), (''carbs'', PInt 14),
                   (''protein'', PFloat float_0_3)]\<rparr>"
proof (intro conjI)
  show "parse_json apple_raw =
     Inr (PDict
       [(''food_id'', PInt 123),
        (''name'', PStr ''apple''),
        (''calories'', PInt 52),
        (''macronutrients'',
           PDict [(''fat'', PFloat float_0_2), (''carbs'', PInt 14),
                  (''protein'', PFloat float_0_3)]),
        (''serving'', PDict [(''value'', PInt 100), (''unit'', PStr ''g'')]),
        (''nutrition_per_serving'',
           PDict [(''calories'', PInt 52), (''fat'', PFloat float_0_2), (''carbs'', PInt 14),
                  (''protein'', PFloat float_0_3)])])"
    by (simp add: parse_json_def apple_raw_def bind_def nutrient_item_def lower_char_def upper_chars_def lower_chars_def)
qed (simp_all add: apple_normalized apple_entry_def, simp add: apple_raw_def)

text \<open>
  C10. \<^verbatim>\<open>str\<close> of a food entry fails, whatever the entry: its
  \<^verbatim>\<open>__str__\<close> returns \<^verbatim>\<open>None\<close>, which is not a string.
\<close>

theorem FoodEntry_str_fails:
  "py_str FoodEntry_str e = Inl (TypeError ''__str__ returned non-string (type NoneType)'')"
  by (simp add: py_str_def FoodEntry_str_def)

section \<open>The status validator: properties\<close>

text \<open>
  C4. The validator classifies every status code: it succeeds exactly for 200, fails
  with the invalid-parameter error exactly for 400, with the not-found error exactly for
  404, and with the unknown error exactly for every other code. It is a gate: what a
  caller does next runs for 200 only, and for any other code the call fails with the
  validator's error.
\<close>

theorem check_response_classification:
  "(check_response r = Inr True \<longleftrightarrow> status_code r = 200) \<and>
   (check_response r = Inl (ValueError ''Apparently this request used an invalid parameter.'')
      \<longleftrightarrow> status_code r = 400) \<and>
   (check_response r =
      Inl (ValueError ''The status code indicates that the food item was not found.'')
      \<longleftrightarrow> status_code r = 404) \<and>
   (check_response r = Inl (RuntimeError ''The status code indicates an unknown error.'')
      \<longleftrightarrow> status_code r \<notin> {200, 400, 404}) \<and>
   bind (check_response r) continue =
     (if status_code r = 200 then continue True
      else if status_code r = 400 then
        Inl (ValueError ''Apparently this request used an invalid parameter.'')
      else if status_code r = 404 then
        Inl (ValueError ''The status code indicates that the food item was not found.'')
      else Inl (RuntimeError ''The status code indicates an unknown error.''))"
  by (simp add: check_response_def bind_def)

section \<open>The client: properties\<close>

subsection \<open>The memoization layer\<close>

lemma cache_wrapper_stores:
  assumes "cache_wrapper cg cs uf self args kwds s = (Inr r, s1)"
    and "\<And>c s. cg (cs c s) = c"
  shows "\<exists>key. make_key self args kwds = Inr key \<and> map_of (cg s1) key = Some r"
  using assms
  by (auto simp: cache_wrapper_def split: sum.splits option.splits prod.splits)

lemma cache_wrapper_keeps:
  assumes "map_of (cg s) key = Some r"
    and "\<And>c s. cg (cs c s) = c"
    and "\<And>self args kwds s. cg (snd (uf self args kwds s)) = cg s"
  shows "map_of (cg (snd (cache_wrapper cg cs uf self' args' kwds' s))) key = Some r"
proof (cases "make_key self' args' kwds'")
  case (Inl e)
  then show ?thesis using assms(1) by (simp add: cache_wrapper_def)
next
  case (Inr key')
  show ?thesis
  proof (cases "map_of (cg s) key'")
    case (Some r')
    then show ?thesis using Inr assms(1) by (simp add: cache_wrapper_def)
  next
    case None
    then have ne: "key' \<noteq> key" using assms(1) by auto
    obtain res s' where u: "uf self' args' kwds' s = (res, s')" by (cases "uf self' args' kwds' s")
    have c: "cg s' = cg s" using assms(3)[of self' args' kwds' s] u by simp
    show ?thesis
      using Inr None u c ne assms(1,2)
      by (cases res) (simp_all add: cache_wrapper_def)
  qed
qed

lemma cache_wrapper_other:
  assumes "\<And>c s. f (cs c s) = f s"
    and "\<And>self args kwds s. f (snd (uf self args kwds s)) = f s"
  shows "f (snd (cache_wrapper cg cs uf self args kwds s)) = f s"
proof -
  obtain res s' where u: "uf self args kwds s = (res, s')" by (cases "uf self args kwds s")
  have c: "f s' = f s" using assms(2)[of self args kwds s] u by simp
  show ?thesis
    using u c assms(1)
    by (cases res) (auto simp: cache_wrapper_def split: sum.splits option.splits)
qed

lemma food_by_id_body_state:
  "snd (food_by_id_body lib self fid kwargs s) = s \<or>
   snd (food_by_id_body lib self fid kwargs s) =
     s\<lparr>sent := sent s @ [(urljoin lib base_url (''food/'' @ str_of lib fid),
                          dict_update [(''api_key'', api_key self)] kwargs)]\<rparr>"
  by (simp add: food_by_id_body_def get_def Let_def)

lemma foods_by_id_body_state:
  "\<exists>req. snd (foods_by_id_body lib self ids kwargs s) = s \<or>
   snd (foods_by_id_body lib self ids kwargs s) = s\<lparr>sent := sent s @ [req]\<rparr>"
  by (cases ids) (auto simp add: foods_by_id_body_def get_def Let_def)

lemma search_body_state:
  "snd (search_food_by_query_body lib self query brand kwargs s) =
     s\<lparr>sent := sent s @ [(urljoin lib base_url ''foods/search'',
                          dict_update [(''api_key'', api_key self)] kwargs)]\<rparr>"
  by (simp add: search_food_by_query_body_def get_def Let_def)


lemma food_by_id_wrapped_state:
  "snd (food_by_id_wrapped lib self args kwds s) = s \<or>
   (\<exists>req. snd (food_by_id_wrapped lib self args kwds s) = s\<lparr>sent := sent s @ [req]\<rparr>)"
proof (cases "bind_args [''food_id''] args kwds")
  case (Inl e)
  then show ?thesis by (simp add: food_by_id_wrapped_def)
next
  case (Inr b)
  obtain vs kwargs where b: "b = (vs, kwargs)" by (cases b)
  show ?thesis
  proof (cases "\<exists>fid. vs = [Some fid]")
    case True
    then obtain fid where "vs = [Some fid]" by blast
    then show ?thesis
      using Inr b food_by_id_body_state[of lib self fid kwargs s]
      by (auto simp: food_by_id_wrapped_def)
  next
    case False
    then show ?thesis
      using Inr b by (auto simp: food_by_id_wrapped_def split: list.splits option.splits)
  qed
qed

lemma foods_by_id_wrapped_state:
  "snd (foods_by_id_wrapped lib self args kwds s) = s \<or>
   (\<exists>req. snd (foods_by_id_wrapped lib self args kwds s) = s\<lparr>sent := sent s @ [req]\<rparr>)"
proof (cases "bind_args [''food_ids''] args kwds")
  case (Inl e)
  then show ?thesis by (simp add: foods_by_id_wrapped_def)
next
  case (Inr b)
  obtain vs kwargs where b: "b = (vs, kwargs)" by (cases b)
  show ?thesis
  proof (cases "\<exists>ids. vs = [Some ids]")
    case True
    then obtain ids where "vs = [Some ids]" by blast
    then show ?thesis
      using Inr b foods_by_id_body_state[of lib self ids kwargs s]
      by (auto simp: foods_by_id_wrapped_def)
  next
    case False
    then show ?thesis
      using Inr b by (auto simp: foods_by_id_wrapped_def split: list.splits option.splits)
  qed
qed

lemma search_wrapped_state:
  "snd (search_food_by_query_wrapped lib self args kwds s) = s \<or>
   (\<exists>req. snd (search_food_by_query_wrapped lib self args kwds s) = s\<lparr>sent := sent s @ [req]\<rparr>)"
proof (cases "bind_args [''query'', ''brand''] args kwds")
  case (Inl e)
  then show ?thesis by (simp add: search_food_by_query_wrapped_def)
next
  case (Inr b)
  obtain vs kwargs where b: "b = (vs, kwargs)" by (cases b)
  show ?thesis
  proof (cases "\<exists>q br. vs = [Some q, br]")
    case True
    then obtain q br where "vs = [Some q, br]" by blast
    then show ?thesis
      using Inr b search_body_state[of lib self q _ kwargs s]
      by (auto simp: search_food_by_query_wrapped_def)
  next
    case False
    then show ?thesis
      using Inr b by (auto simp: search_food_by_query_wrapped_def split: list.splits option.splits)
  qed
qed

lemma wrapped_caches:
  "food_by_id_cache (snd (food_by_id_wrapped lib self args kwds s)) = food_by_id_cache s"
  "foods_by_id_cache (snd (food_by_id_wrapped lib self args kwds s)) = foods_by_id_cache s"
  "search_food_by_query_cache (snd (food_by_id_wrapped lib self args kwds s)) = search_food_by_query_cache s"
  "food_by_id_cache (snd (foods_by_id_wrapped lib self args kwds s)) = food_by_id_cache s"
  "foods_by_id_cache (snd (foods_by_id_wrapped lib self args kwds s)) = foods_by_id_cache s"
  "search_food_by_query_cache (snd (foods_by_id_wrapped lib self args kwds s)) = search_food_by_query_cache s"
  "food_by_id_cache (snd (search_food_by_query_wrapped lib self args kwds s)) = food_by_id_cache s"
  "foods_by_id_cache (snd (search_food_by_query_wrapped lib self args kwds s)) = foods_by_id_cache s"
  "search_food_by_query_cache (snd (search_food_by_query_wrapped lib self args kwds s)) = search_food_by_query_cache s"
  using food_by_id_wrapped_state[of lib self args kwds s]
    foods_by_id_wrapped_state[of lib self args kwds s]
    search_wrapped_state[of lib self args kwds s]
  by auto

lemma returning_Inr:
  "returning wrap rs = (Inr r, s1) \<Longrightarrow> \<exists>r'. rs = (Inr r', s1) \<and> r = wrap r'"
  by (cases rs; cases "fst rs") (auto simp: returning_def)

lemma perform_cached:
  assumes "perform lib c s = (Inr r, s1)"
  shows "cached c s1 r"
proof (cases c)
  case (Food_by_id self args kwds)
  with assms obtain r' where r: "food_by_id lib self args kwds s = (Inr r', s1)" "r = Entry r'"
    using returning_Inr by fastforce
  from r(1) have "\<exists>key. make_key self args kwds = Inr key \<and> map_of (food_by_id_cache s1) key = Some r'"
    unfolding food_by_id_def by (rule cache_wrapper_stores) simp
  then show ?thesis using Food_by_id r(2) by auto
next
  case (Foods_by_id self args kwds)
  with assms obtain r' where r: "foods_by_id lib self args kwds s = (Inr r', s1)" "r = Entries r'"
    using returning_Inr by fastforce
  from r(1) have "\<exists>key. make_key self args kwds = Inr key \<and> map_of (foods_by_id_cache s1) key = Some r'"
    unfolding foods_by_id_def by (rule cache_wrapper_stores) simp
  then show ?thesis using Foods_by_id r(2) by auto
next
  case (Search_food_by_query self args kwds)
  with assms obtain r' where r: "search_food_by_query lib self args kwds s = (Inr r', s1)" "r = Entries r'"
    using returning_Inr by fastforce
  from r(1) have "\<exists>key. make_key self args kwds = Inr key \<and> map_of (search_food_by_query_cache s1) key = Some r'"
    unfolding search_food_by_query_def by (rule cache_wrapper_stores) simp
  then show ?thesis using Search_food_by_query r(2) by auto
qed

lemma cached_hit: "cached c s r \<Longrightarrow> perform lib c s = (Inr r, s)"
  by (cases c)
    (auto simp: returning_def food_by_id_def foods_by_id_def search_food_by_query_def
      cache_wrapper_def split: sum.splits option.splits)

lemma perform_keeps_food_by_id:
  assumes "map_of (food_by_id_cache s) key = Some e"
  shows "map_of (food_by_id_cache (snd (perform lib c s))) key = Some e"
proof (cases c)
  case (Food_by_id self args kwds)
  have "map_of (food_by_id_cache (snd (food_by_id lib self args kwds s))) key = Some e"
    unfolding food_by_id_def
    by (rule cache_wrapper_keeps) (simp_all add: assms wrapped_caches)
  then show ?thesis using Food_by_id by (simp add: returning_def)
next
  case (Foods_by_id self args kwds)
  have "food_by_id_cache (snd (foods_by_id lib self args kwds s)) = food_by_id_cache s"
    unfolding foods_by_id_def
    by (rule cache_wrapper_other) (simp_all add: wrapped_caches)
  then show ?thesis using Foods_by_id assms by (simp add: returning_def)
next
  case (Search_food_by_query self args kwds)
  have "food_by_id_cache (snd (search_food_by_query lib self args kwds s)) = food_by_id_cache s"
    unfolding search_food_by_query_def
    by (rule cache_wrapper_other) (simp_all add: wrapped_caches)
  then show ?thesis using Search_food_by_query assms by (simp add: returning_def)
qed

lemma perform_keeps_foods_by_id:
  assumes "map_of (foods_by_id_cache s) key = Some e"
  shows "map_of (foods_by_id_cache (snd (perform lib c s))) key = Some e"
proof (cases c)
  case (Foods_by_id self args kwds)
  have "map_of (foods_by_id_cache (snd (foods_by_id lib self args kwds s))) key = Some e"
    unfolding foods_by_id_def
    by (rule cache_wrapper_keeps) (simp_all add: assms wrapped_caches)
  then show ?thesis using Foods_by_id by (simp add: returning_def)
next
  case (Food_by_id self args kwds)
  have "foods_by_id_cache (snd (food_by_id lib self args kwds s)) = foods_by_id_cache s"
    unfolding food_by_id_def
    by (rule cache_wrapper_other) (simp_all add: wrapped_caches)
  then show ?thesis using Food_by_id assms by (simp add: returning_def)
next
  case (Search_food_by_query self args kwds)
  have "foods_by_id_cache (snd (search_food_by_query lib self args kwds s)) = foods_by_id_cache s"
    unfolding search_food_by_query_def
    by (rule cache_wrapper_other) (simp_all add: wrapped_caches)
  then show ?thesis using Search_food_by_query assms by (simp add: returning_def)
qed

lemma perform_keeps_search:
  assumes "map_of (search_food_by_query_cache s) key = Some e"
  shows "map_of (search_food_by_query_cache (snd (perform lib c s))) key = Some e"
proof (cases c)
  case (Search_food_by_query self args kwds)
  have "map_of (search_food_by_query_cache (snd (search_food_by_query lib self args kwds s))) key = Some e"
    unfolding search_food_by_query_def
    by (rule cache_wrapper_keeps) (simp_all add: assms wrapped_caches)
  then show ?thesis using Search_food_by_query by (simp add: returning_def)
next
  case (Food_by_id self args kwds)
  have "search_food_by_query_cache (snd (food_by_id lib self args kwds s)) = search_food_by_query_cache s"
    unfolding food_by_id_def
    by (rule cache_wrapper_other) (simp_all add: wrapped_caches)
  then show ?thesis using Food_by_id assms by (simp add: returning_def)
next
  case (Foods_by_id self args kwds)
  have "search_food_by_query_cache (snd (foods_by_id lib self args kwds s)) = search_food_by_query_cache s"
    unfolding foods_by_id_def
    by (rule cache_wrapper_other) (simp_all add: wrapped_caches)
  then show ?thesis using Foods_by_id assms by (simp add: returning_def)
qed

lemma perform_keeps_cached:
  "cached c s r \<Longrightarrow> cached c (snd (perform lib c' s)) r"
  by (cases c)
    (auto split: sum.splits dest: perform_keeps_food_by_id perform_keeps_foods_by_id
      perform_keeps_search)

lemma perform_all_keeps_cached:
  "cached c s r \<Longrightarrow> cached c (perform_all lib cs s) r"
  by (induction cs arbitrary: s) (simp_all add: perform_keeps_cached)

lemma hash_vals_length: "hash_vals xs = Inr hs \<Longrightarrow> length hs = length xs"
  by (induction xs arbitrary: hs) (auto split: sum.splits)

lemma flatten_inj:
  "length ks = length hs \<Longrightarrow> length ks' = length hs' \<Longrightarrow>
   concat (map (\<lambda>(k, h). [HStr k, h]) (zip ks hs)) = concat (map (\<lambda>(k, h). [HStr k, h]) (zip ks' hs'))
   \<Longrightarrow> ks = ks' \<and> hs = hs'"
proof (induction ks hs arbitrary: ks' hs' rule: list_induct2)
  case Nil
  then show ?case by (cases ks'; cases hs') auto
next
  case (Cons k ks h hs)
  then show ?case by (cases ks'; cases hs') auto
qed

lemma make_key_eq:
  assumes "make_key self args kwds = Inr k" and "make_key self args kwds' = Inr k'"
  shows "(k = k') = (map fst kwds = map fst kwds' \<and> hash_vals (map snd kwds) = hash_vals (map snd kwds'))"
proof -
  from assms obtain ha hk hk' where
    ha: "hash_vals args = Inr ha"
    and hk: "hash_vals (map snd kwds) = Inr hk" and hk': "hash_vals (map snd kwds') = Inr hk'"
    and k: "k = HSelf (oid self) # ha @ (if kwds = [] then [] else HMark # concat (map (\<lambda>(k, h). [HStr k, h]) (zip (map fst kwds) hk)))"
    and k': "k' = HSelf (oid self) # ha @ (if kwds' = [] then [] else HMark # concat (map (\<lambda>(k, h). [HStr k, h]) (zip (map fst kwds') hk')))"
    by (auto simp: make_key_def bind_def split: sum.splits)
  have l: "length (map fst kwds) = length hk" "length (map fst kwds') = length hk'"
    using hash_vals_length[OF hk] hash_vals_length[OF hk'] by simp_all
  show ?thesis
  proof
    assume "k = k'"
    then have e: "(if kwds = [] then [] else HMark # concat (map (\<lambda>(k, h). [HStr k, h]) (zip (map fst kwds) hk)))
       = (if kwds' = [] then [] else HMark # concat (map (\<lambda>(k, h). [HStr k, h]) (zip (map fst kwds') hk')))"
      using k k' by simp
    show "map fst kwds = map fst kwds' \<and> hash_vals (map snd kwds) = hash_vals (map snd kwds')"
    proof (cases "kwds = []")
      case True
      with e have "kwds' = []" by (auto split: if_splits)
      with True show ?thesis by simp
    next
      case False
      with e have "kwds' \<noteq> []" by (auto split: if_splits)
      with e False have "concat (map (\<lambda>(k, h). [HStr k, h]) (zip (map fst kwds) hk)) =
          concat (map (\<lambda>(k, h). [HStr k, h]) (zip (map fst kwds') hk'))" by simp
      from flatten_inj[OF l this] show ?thesis using hk hk' by simp
    qed
  next
    assume "map fst kwds = map fst kwds' \<and> hash_vals (map snd kwds) = hash_vals (map snd kwds')"
    then have "map fst kwds = map fst kwds'" "hk = hk'" using hk hk' by simp_all
    moreover from this(1) have "(kwds = []) = (kwds' = [])" by (metis map_is_Nil_conv)
    ultimately show "k = k'" using k k' by simp
  qed
qed


lemma food_by_id_repeats:
  assumes "food_by_id lib self args kwds s = (Inr r, s1)"
    and "make_key self args' kwds' = make_key self args kwds"
  shows "food_by_id lib self args' kwds' (perform_all lib cs s1) = (Inr r, perform_all lib cs s1)"
proof -
  from assms(1) have "perform lib (Food_by_id self args kwds) s = (Inr (Entry r), s1)"
    by (simp add: returning_def)
  then have "cached (Food_by_id self args kwds) (perform_all lib cs s1) (Entry r)"
    by (intro perform_all_keeps_cached perform_cached)
  then have "cached (Food_by_id self args' kwds') (perform_all lib cs s1) (Entry r)"
    using assms(2) by simp
  then have "perform lib (Food_by_id self args' kwds') (perform_all lib cs s1) =
      (Inr (Entry r), perform_all lib cs s1)"
    by (rule cached_hit)
  then show ?thesis
    using returning_Inr[of Entry "food_by_id lib self args' kwds' (perform_all lib cs s1)"]
    by auto
qed

lemma search_food_by_query_repeats:
  assumes "search_food_by_query lib self args kwds s = (Inr r, s1)"
    and "make_key self args' kwds' = make_key self args kwds"
  shows "search_food_by_query lib self args' kwds' (perform_all lib cs s1) =
      (Inr r, perform_all lib cs s1)"
proof -
  from assms(1) have "perform lib (Search_food_by_query self args kwds) s = (Inr (Entries r), s1)"
    by (simp add: returning_def)
  then have "cached (Search_food_by_query self args kwds) (perform_all lib cs s1) (Entries r)"
    by (intro perform_all_keeps_cached perform_cached)
  then have "cached (Search_food_by_query self args' kwds') (perform_all lib cs s1) (Entries r)"
    using assms(2) by simp
  then have "perform lib (Search_food_by_query self args' kwds') (perform_all lib cs s1) =
      (Inr (Entries r), perform_all lib cs s1)"
    by (rule cached_hit)
  then show ?thesis
    using returning_Inr[of Entries "search_food_by_query lib self args' kwds' (perform_all lib cs s1)"]
    by auto
qed

lemma cache_wrapper_miss:
  assumes "make_key self args kwds = Inr k" and "map_of (cg s) k = None"
  shows "fst (cache_wrapper cg cs uf self args kwds s) = fst (uf self args kwds s)"
  using assms by (cases "uf self args kwds s"; cases "fst (uf self args kwds s)")
    (auto simp: cache_wrapper_def)

lemma cache_wrapper_miss_sent:
  assumes "make_key self args kwds = Inr k" and "map_of (cg s) k = None"
    and "\<And>c s. sent (cs c s) = sent (s::state)"
  shows "sent (snd (cache_wrapper cg cs uf self args kwds s)) = sent (snd (uf self args kwds s))"
  using assms by (cases "uf self args kwds s"; cases "fst (uf self args kwds s)")
    (auto simp: cache_wrapper_def)

text \<open>
  C5. When a call of \<^verbatim>\<open>food_by_id\<close> or of \<^verbatim>\<open>search_food_by_query\<close> has
  returned a result, a call of the same method with the same cache key, made after any
  further calls, returns that result and leaves the state as it is: nothing is added to
  the requests sent. The key is the same for the same client, positional arguments and
  keyword arguments in the same order, where values that compare equal (\<^verbatim>\<open>1\<close>,
  \<^verbatim>\<open>1.0\<close>, \<^verbatim>\<open>True\<close>) count as the same. Two calls of the same positional
  arguments have the same key exactly when their keyword arguments have the same names in
  the same order and pairwise equal values. A call whose key is not in the cache runs the
  method: it returns what the undecorated method returns and sends what it sends.
\<close>

theorem memoized_result_served_from_cache:
  "(\<forall>self args kwds s r s1 args' kwds'.
      food_by_id lib self args kwds s = (Inr r, s1) \<longrightarrow>
      make_key self args' kwds' = make_key self args kwds \<longrightarrow>
      food_by_id lib self args' kwds' (perform_all lib cs s1) = (Inr r, perform_all lib cs s1)) \<and>
   (\<forall>self args kwds s r s1 args' kwds'.
      search_food_by_query lib self args kwds s = (Inr r, s1) \<longrightarrow>
      make_key self args' kwds' = make_key self args kwds \<longrightarrow>
      search_food_by_query lib self args' kwds' (perform_all lib cs s1) =
        (Inr r, perform_all lib cs s1)) \<and>
   (\<forall>self args kwds kwds' k k'.
      make_key self args kwds = Inr k \<longrightarrow> make_key self args kwds' = Inr k' \<longrightarrow>
      (k = k') =
        (map fst kwds = map fst kwds' \<and>
         hash_vals (map snd kwds) = hash_vals (map snd kwds'))) \<and>
   (\<forall>self args kwds k (s::state).
      make_key self args kwds = Inr k \<longrightarrow> map_of (food_by_id_cache s) k = None \<longrightarrow>
      fst (food_by_id lib self args kwds s) = fst (food_by_id_wrapped lib self args kwds s) \<and>
      sent (snd (food_by_id lib self args kwds s)) =
        sent (snd (food_by_id_wrapped lib self args kwds s))) \<and>
   (\<forall>self args kwds k (s::state).
      make_key self args kwds = Inr k \<longrightarrow> map_of (search_food_by_query_cache s) k = None \<longrightarrow>
      fst (search_food_by_query lib self args kwds s) =
        fst (search_food_by_query_wrapped lib self args kwds s) \<and>
      sent (snd (search_food_by_query lib self args kwds s)) =
        sent (snd (search_food_by_query_wrapped lib self args kwds s)))"
proof (intro conjI allI impI)
  fix self args kwds s r s1 args' kwds'
  assume "food_by_id lib self args kwds s = (Inr r, s1)"
    and "make_key self args' kwds' = make_key self args kwds"
  then show "food_by_id lib self args' kwds' (perform_all lib cs s1) = (Inr r, perform_all lib cs s1)"
    by (rule food_by_id_repeats)
next
  fix self args kwds s r s1 args' kwds'
  assume "search_food_by_query lib self args kwds s = (Inr r, s1)"
    and "make_key self args' kwds' = make_key self args kwds"
  then show "search_food_by_query lib self args' kwds' (perform_all lib cs s1) =
      (Inr r, perform_all lib cs s1)"
    by (rule search_food_by_query_repeats)
next
  fix self args kwds kwds' k k'
  assume "make_key self args kwds = Inr k" and "make_key self args kwds' = Inr k'"
  then show "(k = k') =
      (map fst kwds = map fst kwds' \<and> hash_vals (map snd kwds) = hash_vals (map snd kwds'))"
    by (rule make_key_eq)
next
  fix self args kwds k and s :: state
  assume k: "make_key self args kwds = Inr k" and n: "map_of (food_by_id_cache s) k = None"
  show "fst (food_by_id lib self args kwds s) = fst (food_by_id_wrapped lib self args kwds s)"
    unfolding food_by_id_def using k n by (rule cache_wrapper_miss)
  show "sent (snd (food_by_id lib self args kwds s)) =
      sent (snd (food_by_id_wrapped lib self args kwds s))"
    unfolding food_by_id_def using k n by (rule cache_wrapper_miss_sent) simp
next
  fix self args kwds k and s :: state
  assume k: "make_key self args kwds = Inr k"
    and n: "map_of (search_food_by_query_cache s) k = None"
  show "fst (search_food_by_query lib self args kwds s) =
      fst (search_food_by_query_wrapped lib self args kwds s)"
    unfolding search_food_by_query_def using k n by (rule cache_wrapper_miss)
  show "sent (snd (search_food_by_query lib self args kwds s)) =
      sent (snd (search_food_by_query_wrapped lib self args kwds s))"
    unfolding search_food_by_query_def using k n by (rule cache_wrapper_miss_sent) simp
qed


lemmas demo_evaluation =
  calls_between_def returning_def food_by_id_def foods_by_id_def Let_def
  search_food_by_query_def cache_wrapper_def make_key_def bind_def initial_state_def client_def
  food_by_id_wrapped_def search_food_by_query_wrapped_def bind_args_def food_by_id_body_def
  search_food_by_query_body_def foods_of_def get_def demo_library_def dict_update_def
  base_url_def check_response_def apple_normalized

lemma after_food_value:
  "food_by_id demo_library client [PInt 1] [(''format'', PStr ''full'')] initial_state =
     (Inr apple_entry, after_food)"
  by (simp add: after_food_def demo_evaluation)

lemma after_search_value:
  "search_food_by_query demo_library client [PStr ''apple''] []
     (perform_all demo_library calls_between after_food) = (Inr [apple_entry], after_search)"
  by (simp add: after_search_def after_food_def demo_evaluation)

theorem memoized_result_served_from_cache_witness:
  "food_by_id demo_library client [PInt 1] [(''format'', PStr ''full'')] initial_state =
     (Inr apple_entry, after_food) \<and>
   food_by_id demo_library client [PFloat 1] [(''format'', PStr ''full'')]
       (perform_all demo_library calls_between after_food) =
     (Inr apple_entry, perform_all demo_library calls_between after_food) \<and>
   search_food_by_query demo_library client [PStr ''apple''] []
       (perform_all demo_library calls_between after_food) =
     (Inr [apple_entry], after_search) \<and>
   search_food_by_query demo_library client [PStr ''apple''] []
       (perform_all demo_library calls_between after_search) =
     (Inr [apple_entry], perform_all demo_library calls_between after_search) \<and>
   make_key client [PInt 1] [(''format'', PStr ''full'')] \<noteq>
     make_key client [PInt 1] [(''format'', PStr ''abridged'')] \<and>
   fst (food_by_id demo_library client [PInt 2] [] after_food) = Inr apple_entry \<and>
   length (sent (snd (food_by_id demo_library client [PInt 2] [] after_food))) = 2 \<and>
   fst (search_food_by_query demo_library client [PStr ''pear''] [] after_search) =
     Inr [apple_entry] \<and>
   length (sent (snd (search_food_by_query demo_library client [PStr ''pear''] [] after_search))) = 6"
proof -
  note t = memoized_result_served_from_cache[of demo_library calls_between]
  note hit_food = t[THEN conjunct1, rule_format]
    and hit_search = t[THEN conjunct2, THEN conjunct1, rule_format]
    and keys = t[THEN conjunct2, THEN conjunct2, THEN conjunct1, rule_format]
    and miss_food = t[THEN conjunct2, THEN conjunct2, THEN conjunct2, THEN conjunct1, rule_format]
    and miss_search = t[THEN conjunct2, THEN conjunct2, THEN conjunct2, THEN conjunct2, rule_format]
  have f1: "food_by_id demo_library client [PInt 1] [(''format'', PStr ''full'')] initial_state =
     (Inr apple_entry, after_food)"
    by (rule after_food_value)
  have e: "make_key client [PFloat 1] [(''format'', PStr ''full'')] =
      make_key client [PInt 1] [(''format'', PStr ''full'')]"
    by (simp add: make_key_def bind_def)
  from hit_food[OF f1 e] have f2: "food_by_id demo_library client [PFloat 1] [(''format'', PStr ''full'')]
       (perform_all demo_library calls_between after_food) =
     (Inr apple_entry, perform_all demo_library calls_between after_food)" .
  have s1: "search_food_by_query demo_library client [PStr ''apple''] []
       (perform_all demo_library calls_between after_food) = (Inr [apple_entry], after_search)"
    by (rule after_search_value)
  from hit_search[OF s1 refl] have s2: "search_food_by_query demo_library client [PStr ''apple''] []
       (perform_all demo_library calls_between after_search) =
     (Inr [apple_entry], perform_all demo_library calls_between after_search)" .
  have k1: "make_key client [PInt 1] [(''format'', PStr ''full'')] =
      Inr [HSelf 0, HNum 1, HMark, HStr ''format'', HStr ''full'']"
    and k2: "make_key client [PInt 1] [(''format'', PStr ''abridged'')] =
      Inr [HSelf 0, HNum 1, HMark, HStr ''format'', HStr ''abridged'']"
    by (simp_all add: make_key_def bind_def client_def)
  from keys[OF k1 k2] have "([HSelf 0, HNum 1, HMark, HStr ''format'', HStr ''full''] =
             [HSelf 0, HNum 1, HMark, HStr ''format'', HStr ''abridged'']) =
            (map fst [(''format'', PStr ''full'')] = map fst [(''format'', PStr ''abridged'')] \<and>
             hash_vals (map snd [(''format'', PStr ''full'')]) =
             hash_vals (map snd [(''format'', PStr ''abridged'')]))" .
  then have kd: "make_key client [PInt 1] [(''format'', PStr ''full'')] \<noteq>
     make_key client [PInt 1] [(''format'', PStr ''abridged'')]"
    using k1 k2 by simp
  have k3: "make_key client [PInt 2] [] = Inr [HSelf 0, HNum 2]"
    by (simp add: make_key_def bind_def client_def)
  have n3: "map_of (food_by_id_cache after_food) [HSelf 0, HNum 2] = None"
    by (simp add: after_food_def demo_evaluation)
  from miss_food[OF k3 n3] have m: "fst (food_by_id demo_library client [PInt 2] [] after_food) =
        fst (food_by_id_wrapped demo_library client [PInt 2] [] after_food) \<and>
      sent (snd (food_by_id demo_library client [PInt 2] [] after_food)) =
        sent (snd (food_by_id_wrapped demo_library client [PInt 2] [] after_food))" .
  have w: "fst (food_by_id_wrapped demo_library client [PInt 2] [] after_food) = Inr apple_entry"
    "length (sent (snd (food_by_id_wrapped demo_library client [PInt 2] [] after_food))) = 2"
    by (simp_all add: after_food_def demo_evaluation)
  have k4: "make_key client [PStr ''pear''] [] = Inr [HSelf 0, HStr ''pear'']"
    by (simp add: make_key_def bind_def client_def)
  have n4: "map_of (search_food_by_query_cache after_search) [HSelf 0, HStr ''pear''] = None"
    by (simp add: after_search_def after_food_def demo_evaluation)
  from miss_search[OF k4 n4] have m2: "fst (search_food_by_query demo_library client [PStr ''pear''] [] after_search) =
        fst (search_food_by_query_wrapped demo_library client [PStr ''pear''] [] after_search) \<and>
      sent (snd (search_food_by_query demo_library client [PStr ''pear''] [] after_search)) =
        sent (snd (search_food_by_query_wrapped demo_library client [PStr ''pear''] [] after_search))" .
  have w2: "fst (search_food_by_query_wrapped demo_library client [PStr ''pear''] [] after_search) =
      Inr [apple_entry]"
    "length (sent (snd (search_food_by_query_wrapped demo_library client [PStr ''pear''] []
        after_search))) = 6"
    by (simp_all add: after_search_def after_food_def demo_evaluation)
  from f1 f2 s1 s2 kd m w m2 w2 show ?thesis by simp
qed

text \<open>
  C5, as the specification words it, fails. The same keyword arguments passed in another
  order are the same set of keyword arguments, yet the second call sends a second request.
  And keyword arguments that differ, \<^verbatim>\<open>pageSize=1\<close> and \<^verbatim>\<open>pageSize=1.0\<close>,
  have one and the same key.
\<close>

theorem memoization_by_keyword_set_counterexample:
  "set size_then_format = set format_then_size \<and>
   fst (food_by_id demo_library client [PInt 1] format_then_size initial_state) = Inr apple_entry \<and>
   length (sent (snd (food_by_id demo_library client [PInt 1] format_then_size initial_state))) = 1 \<and>
   length (sent (snd (food_by_id demo_library client [PInt 1] size_then_format
      (snd (food_by_id demo_library client [PInt 1] format_then_size initial_state))))) = 2 \<and>
   [(''pageSize'', PInt 1)] \<noteq> [(''pageSize'', PFloat 1)] \<and>
   make_key client [PInt 1] [(''pageSize'', PInt 1)] =
     make_key client [PInt 1] [(''pageSize'', PFloat 1)]"
  by (simp add: format_then_size_def size_then_format_def demo_evaluation insert_commute)


subsection \<open>Requests\<close>

lemma map_of_dict_update:
  "map_of (dict_update d kwargs) = map_of d ++ map_of (rev kwargs)"
  unfolding dict_update_def
proof (induction kwargs arbitrary: d)
  case Nil
  then show ?case by simp
next
  case (Cons kv kwargs)
  have "map_of (AList.update (fst kv) (snd kv) d) ++ map_of (rev kwargs) =
        map_of d ++ map_of (rev (kv # kwargs))"
    by (rule ext) (simp add: update_conv' map_add_def split: option.splits)
  with Cons.IH[of "AList.update (fst kv) (snd kv) d"] show ?case by simp
qed

lemma search_wrapped_sent:
  "sent (snd (search_food_by_query_wrapped lib self args kwds s)) = sent s \<or>
   sent (snd (search_food_by_query_wrapped lib self args kwds s)) =
     sent s @ [(urljoin lib base_url ''foods/search'',
                dict_update [(''api_key'', api_key self)] (extra_options kwds))]"
proof (cases "bind_args [''query'', ''brand''] args kwds")
  case (Inl e)
  then show ?thesis by (simp add: search_food_by_query_wrapped_def)
next
  case (Inr b)
  obtain vs kwargs where b: "b = (vs, kwargs)" by (cases b)
  with Inr have k: "kwargs = extra_options kwds"
    by (auto simp: bind_args_def extra_options_def split: list.splits if_splits)
  show ?thesis
  proof (cases "\<exists>q br. vs = [Some q, br]")
    case True
    then obtain q br where "vs = [Some q, br]" by blast
    then show ?thesis
      using Inr b k search_body_state[of lib self q _ kwargs s]
      by (auto simp: search_food_by_query_wrapped_def)
  next
    case False
    then show ?thesis
      using Inr b by (auto simp: search_food_by_query_wrapped_def split: list.splits option.splits)
  qed
qed

lemma search_sent:
  "sent (snd (search_food_by_query lib self args kwds s)) = sent s \<or>
   sent (snd (search_food_by_query lib self args kwds s)) =
     sent s @ [(urljoin lib base_url ''foods/search'',
                dict_update [(''api_key'', api_key self)] (extra_options kwds))]"
proof -
  obtain res s' where u: "search_food_by_query_wrapped lib self args kwds s = (res, s')"
    by (cases "search_food_by_query_wrapped lib self args kwds s")
  then show ?thesis
    using search_wrapped_sent[of lib self args kwds s]
    by (cases res) (auto simp: search_food_by_query_def cache_wrapper_def split: sum.splits option.splits)
qed

text \<open>
  C3. The body of \<^verbatim>\<open>search_food_by_query\<close> issues one request, to
  \<^verbatim>\<open>foods/search\<close>, whose parameters are the client's key updated with the extra
  keyword options: as a mapping, the key under \<^verbatim>\<open>api_key\<close> overridden by the
  options, and nothing else. Neither the query nor the brand takes part: the body does
  the same for any two queries and brands. Through the public method, a call sends
  either nothing or that one request, built from the keyword arguments other than
  \<^verbatim>\<open>query\<close> and \<^verbatim>\<open>brand\<close>.
\<close>

theorem search_request_ignores_query_and_brand:
  "sent (snd (search_food_by_query_body lib self query brand kwargs s)) =
     sent s @ [(urljoin lib base_url ''foods/search'',
                dict_update [(''api_key'', api_key self)] kwargs)] \<and>
   map_of (dict_update [(''api_key'', api_key self)] kwargs) =
     [''api_key'' \<mapsto> api_key self] ++ map_of (rev kwargs) \<and>
   search_food_by_query_body lib self query brand kwargs s =
     search_food_by_query_body lib self query' brand' kwargs s \<and>
   (sent (snd (search_food_by_query lib self args kwds s)) = sent s \<or>
    sent (snd (search_food_by_query lib self args kwds s)) =
      sent s @ [(urljoin lib base_url ''foods/search'',
                 dict_update [(''api_key'', api_key self)] (extra_options kwds))])"
proof (intro conjI)
  show "sent (snd (search_food_by_query_body lib self query brand kwargs s)) =
     sent s @ [(urljoin lib base_url ''foods/search'',
                dict_update [(''api_key'', api_key self)] kwargs)]"
    by (simp add: search_body_state)
  show "map_of (dict_update [(''api_key'', api_key self)] kwargs) =
     [''api_key'' \<mapsto> api_key self] ++ map_of (rev kwargs)"
    by (simp add: map_of_dict_update)
  show "search_food_by_query_body lib self query brand kwargs s =
     search_food_by_query_body lib self query' brand' kwargs s"
    by (simp add: search_food_by_query_body_def)
  show "sent (snd (search_food_by_query lib self args kwds s)) = sent s \<or>
    sent (snd (search_food_by_query lib self args kwds s)) =
      sent s @ [(urljoin lib base_url ''foods/search'',
                 dict_update [(''api_key'', api_key self)] (extra_options kwds))]"
    by (rule search_sent)
qed

subsection \<open>Validation behind the cache\<close>

text \<open>
  C2. A call of \<^verbatim>\<open>foods_by_id\<close> whose first positional argument is a list, or
  whose first keyword argument is \<^verbatim>\<open>food_ids\<close> with a list, fails when the
  wrapper builds the cache key, with the type error of an unhashable list. The state is
  unchanged: the body, with its checks of type and length, has not run.
\<close>

theorem foods_by_id_list_unhashable:
  "make_key self (PList xs # rest) kwds = Inl (TypeError (''unhashable type: '' @ quoted ''list'')) \<and>
   foods_by_id lib self (PList xs # rest) kwds s =
     (Inl (TypeError (''unhashable type: '' @ quoted ''list'')), s) \<and>
   foods_by_id lib self [] ((''food_ids'', PList xs) # kwds) s =
     (Inl (TypeError (''unhashable type: '' @ quoted ''list'')), s)"
  by (simp add: foods_by_id_def cache_wrapper_def make_key_def bind_def)

text \<open>
  C1. With a list of 21 ids, the body of \<^verbatim>\<open>foods_by_id\<close> fails with the value
  error of its length check and sends nothing; the method as a caller reaches it fails
  before that, with the type error of an unhashable list.
\<close>

theorem foods_by_id_21_ids:
  "foods_by_id_body lib self (PList (map PInt [1..21])) kwargs s =
     (Inl (ValueError ''food_ids must be a list of length <= 20''), s) \<and>
   foods_by_id lib self [PList (map PInt [1..21])] kwds s =
     (Inl (TypeError (''unhashable type: '' @ quoted ''list'')), s)"
  by (simp add: foods_by_id_body_def foods_by_id_def cache_wrapper_def make_key_def bind_def)

text \<open>Whatever the cache holds, a call of \<^verbatim>\<open>food_by_id\<close> whose
  \<^verbatim>\<open>food_id\<close> is not an integer sends no request.\<close>

lemma food_by_id_non_integer_sends_nothing:
  assumes "bind_args [''food_id''] args kwds = Inr ([Some v], kwargs)"
    and "\<not> isinstance_int v"
  shows "sent (snd (food_by_id lib self args kwds s)) = sent s"
  using assms
  by (auto simp: food_by_id_def cache_wrapper_def food_by_id_wrapped_def food_by_id_body_def
      split: sum.splits option.splits)

text \<open>
  C9. The body of \<^verbatim>\<open>food_by_id\<close> rejects the float \<^verbatim>\<open>1.0\<close> with its type
  error and sends nothing. Through the public method, after \<^verbatim>\<open>food_by_id(1)\<close> has
  returned an entry, \<^verbatim>\<open>food_by_id(1.0)\<close> has the same cache key and returns that
  entry; and a list argument fails in the wrapper, with the type error of an unhashable
  list in place of the body's.
\<close>

theorem food_by_id_float_after_int:
  "food_by_id_body lib self (PFloat 1) kwargs s =
     (Inl (TypeError ''food_id must be an integer. for a list use foods_by_id''), s) \<and>
   food_by_id stub_library client [PInt 1] [] initial_state = (Inr apple_entry, state_1) \<and>
   food_by_id stub_library client [PFloat 1] [] state_1 = (Inr apple_entry, state_1) \<and>
   food_by_id lib self [PList xs] kwds s =
     (Inl (TypeError (''unhashable type: '' @ quoted ''list'')), s)"
  by (simp add: food_by_id_def cache_wrapper_def make_key_def bind_def initial_state_def
      client_def food_by_id_wrapped_def bind_args_def food_by_id_body_def get_def
      stub_library_def dict_update_def base_url_def check_response_def apple_normalized
      state_1_def)

end
